theory Spec2Isabelle
  imports Main
begin

section \<open>Values of the host language\<close>

text \<open>
  A thrown exception is a value: \<open>Inl msg\<close> is a throw whose \<open>Error.message\<close> is
  \<open>msg\<close>, \<open>Inr v\<close> is a normal return of \<open>v\<close>.
\<close>

type_synonym 'a res = "string + 'a"

text \<open>
  A JavaScript number as the analyzer uses it: the result of \<open>parseInt\<close>, of
  \<open>Math.min\<close>/\<open>Math.max\<close> on it, or a literal. \<open>parseInt\<close> yields an integer or
  \<open>NaN\<close>. (Past \<open>2^53\<close> the host rounds the integer; every use below clamps it to
  \<open>[1,10]\<close> first, where the rounding cannot be seen.)
\<close>

datatype jsnum = NaN | Num int

fun Math_min :: "jsnum \<Rightarrow> jsnum \<Rightarrow> jsnum" where
  "Math_min (Num a) (Num b) = Num (min a b)"
| "Math_min _ _ = NaN"

fun Math_max :: "jsnum \<Rightarrow> jsnum \<Rightarrow> jsnum" where
  "Math_max (Num a) (Num b) = Num (max a b)"
| "Math_max _ _ = NaN"

text \<open>\<open>a >= b\<close>: every comparison with \<open>NaN\<close> is false.\<close>

fun js_ge :: "jsnum \<Rightarrow> jsnum \<Rightarrow> bool" where
  "js_ge (Num a) (Num b) = (b \<le> a)"
| "js_ge _ _ = False"

subsection \<open>Strings\<close>

text \<open>
  A string is its list of code units; the model keeps the code units below 256.
  \<open>isSpace\<close> is the white space and line terminators that \<open>trim\<close>, \<open>parseInt\<close> and
  the regular expression class \<open>\s\<close> strip or match (tab, LF, VT, FF, CR, space, NBSP).
\<close>

definition isSpace :: "char \<Rightarrow> bool" where
  "isSpace c = (let n = (of_char c :: nat) in (9 \<le> n \<and> n \<le> 13) \<or> n = 32 \<or> n = 160)"

definition trim :: "string \<Rightarrow> string" where
  "trim s = rev (dropWhile isSpace (rev (dropWhile isSpace s)))"

definition lowerChar :: "char \<Rightarrow> char" where
  "lowerChar c =
     (let n = (of_char c :: nat)
      in if (65 \<le> n \<and> n \<le> 90) \<or> (192 \<le> n \<and> n \<le> 222 \<and> n \<noteq> 215)
         then char_of (n + 32) else c)"

definition toLowerCase :: "string \<Rightarrow> string" where
  "toLowerCase s = map lowerChar s"

text \<open>
  \<open>toUpperCase\<close>: the sharp s (223) becomes two letters. The upper-case forms of 181
  and 255 lie past the code units the model keeps; they stay, and are no letter of
  \<open>A-Z\<close> either way.
\<close>

definition upperUnits :: "char \<Rightarrow> string" where
  "upperUnits c =
     (let n = (of_char c :: nat)
      in if n = 223 then ''SS''
         else if (97 \<le> n \<and> n \<le> 122) \<or> (224 \<le> n \<and> n \<le> 254 \<and> n \<noteq> 247)
         then [char_of (n - 32)] else [c])"

definition toUpperCase :: "string \<Rightarrow> string" where
  "toUpperCase s = concat (map upperUnits s)"

definition startsWith :: "string \<Rightarrow> string \<Rightarrow> bool" where
  "startsWith s p = (take (length p) s = p)"

text \<open>\<open>s.includes(sub)\<close>: \<open>sub\<close> occurs in \<open>s\<close> at some position.\<close>

fun js_includes :: "string \<Rightarrow> string \<Rightarrow> bool" where
  "js_includes [] sub = (sub = [])"
| "js_includes (c # cs) sub = (startsWith (c # cs) sub \<or> js_includes cs sub)"

text \<open>\<open>s.split(sep)\<close> for a one-character separator: never empty, \<open>"".split(sep) = [""]\<close>.\<close>

fun js_split :: "char \<Rightarrow> string \<Rightarrow> string list" where
  "js_split sep [] = [[]]"
| "js_split sep (c # cs) =
     (if c = sep then [] # js_split sep cs
      else (case js_split sep cs of
              [] \<Rightarrow> [[c]]
            | x # xs \<Rightarrow> (c # x) # xs))"

fun js_join :: "string \<Rightarrow> string list \<Rightarrow> string" where
  "js_join sep [] = []"
| "js_join sep [x] = x"
| "js_join sep (x # y # ys) = x @ sep @ js_join sep (y # ys)"

text \<open>\<open>a || b\<close> on strings: the empty string is falsy.\<close>

definition orElse :: "string \<Rightarrow> string \<Rightarrow> string" where
  "orElse a b = (if a = [] then b else a)"

subsection \<open>parseInt\<close>

definition digitVal :: "nat \<Rightarrow> char \<Rightarrow> nat option" where
  "digitVal radix c =
     (let n = (of_char c :: nat);
          v = (if 48 \<le> n \<and> n \<le> 57 then Some (n - 48)
               else if 97 \<le> n \<and> n \<le> 122 then Some (n - 87)
               else if 65 \<le> n \<and> n \<le> 90 then Some (n - 55)
               else None)
      in case v of None \<Rightarrow> None | Some d \<Rightarrow> if d < radix then Some d else None)"

definition isDigitOf :: "nat \<Rightarrow> char \<Rightarrow> bool" where
  "isDigitOf radix c = (digitVal radix c \<noteq> None)"

definition digitsValue :: "nat \<Rightarrow> string \<Rightarrow> nat" where
  "digitsValue radix ds = foldl (\<lambda>acc c. acc * radix + the (digitVal radix c)) 0 ds"

text \<open>
  \<open>parseInt(s)\<close> with no radix: leading white space is skipped, then an optional sign,
  then a \<open>0x\<close>/\<open>0X\<close> prefix selects radix 16 (otherwise 10), then the longest run of
  digits is read; no digit at all gives \<open>NaN\<close>.
\<close>

definition parseInt :: "string \<Rightarrow> jsnum" where
  "parseInt s =
     (let s1 = dropWhile isSpace s;
          neg = startsWith s1 ''-'' \<and> s1 \<noteq> [];
          s2 = (if s1 \<noteq> [] \<and> (hd s1 = CHR ''-'' \<or> hd s1 = CHR ''+'') then tl s1 else s1);
          hex = (length s2 \<ge> 2 \<and> (take 2 s2 = ''0x'' \<or> take 2 s2 = ''0X''));
          radix = (if hex then 16 else 10);
          s3 = (if hex then drop 2 s2 else s2);
          ds = takeWhile (isDigitOf radix) s3
      in if ds = [] then NaN
         else Num ((if neg then - 1 else 1) * int (digitsValue radix ds)))"

text \<open>Decimal text of a number, as a template literal prints it.\<close>

fun showNat :: "nat \<Rightarrow> string" where
  "showNat n = (if n < 10 then [char_of (48 + n)] else showNat (n div 10) @ [char_of (48 + n mod 10)])"

declare showNat.simps [simp del]

fun showNum :: "jsnum \<Rightarrow> string" where
  "showNum NaN = ''NaN''"
| "showNum (Num i) = (if i < 0 then ''-'' @ showNat (nat (- i)) else showNat (nat i))"

section \<open>Data model (types.ts)\<close>

record Broker =
  name :: string
  url :: string
  opt_out_url :: string
  requires_id_upload :: bool
  broker_notes :: string

record FailureAnalysis =
  problem :: string
  suggestedFix :: string
  nextSteps :: "string list"
  specialInstructions :: string
  confidence :: jsnum

section \<open>Outcome analyzer: parsing the completion (ai-analyzer.ts)\<close>

text \<open>
  The four variables the loop of \<open>parseAnalysisResponse\<close> assigns. \<open>specialInstructions\<close>
  is declared but never assigned in the loop, so it is not part of the loop state.
\<close>

record parsed =
  p_problem :: string
  p_suggestedFix :: string
  p_nextSteps :: "string list"
  p_confidence :: jsnum

definition parsed0 :: parsed where
  "parsed0 = \<lparr>p_problem = '''', p_suggestedFix = '''', p_nextSteps = [], p_confidence = Num 5\<rparr>"

text \<open>\<open>line.split(':').slice(1).join(':').trim()\<close>\<close>

definition afterColon :: "string \<Rightarrow> string" where
  "afterColon line = trim (js_join '':'' (tl (js_split CHR '':'' line)))"

text \<open>\<open>line.split(':')[1]?.trim() || '5'\<close>\<close>

definition confidenceText :: "string \<Rightarrow> string" where
  "confidenceText line =
     (case js_split CHR '':'' line of
        _ # x # _ \<Rightarrow> orElse (trim x) ''5''
      | _ \<Rightarrow> ''5'')"

definition parseLine :: "parsed \<Rightarrow> string \<Rightarrow> parsed" where
  "parseLine st line =
     (let low = toLowerCase line
      in if js_includes low ''problem:'' \<or> js_includes low ''issue:''
           then st\<lparr>p_problem := afterColon line\<rparr>
         else if js_includes low ''fix:'' \<or> js_includes low ''solution:''
           then st\<lparr>p_suggestedFix := afterColon line\<rparr>
         else if js_includes low ''steps:'' \<or> js_includes low ''next:''
           then st\<lparr>p_nextSteps :=
                  filter (\<lambda>s. length s > 0) (map trim (js_split CHR '','' (afterColon line)))\<rparr>
         else if js_includes low ''confidence:''
           then st\<lparr>p_confidence := Math_max (Num 1) (Math_min (Num 10) (parseInt (confidenceText line)))\<rparr>
         else st)"

definition scanLines :: "string \<Rightarrow> parsed" where
  "scanLines response = foldl parseLine parsed0 (js_split CHR 0x0A response)"

text \<open>
  The completion's \<open>content\<close> is \<open>Some text\<close>, or \<open>None\<close> when it is not a string
  (\<open>null\<close>): then \<open>response.split\<close> throws and the \<open>catch\<close> arm answers. On a string
  nothing inside the \<open>try\<close> can throw.
\<close>

definition parseAnalysisResponse :: "string option \<Rightarrow> FailureAnalysis" where
  "parseAnalysisResponse content =
     (case content of
        None \<Rightarrow>
          \<lparr>problem = ''Failed to parse analysis'', suggestedFix = ''Manual review required'',
           nextSteps = [''Check screenshot manually''], specialInstructions = '''',
           confidence = Num 0\<rparr>
      | Some response \<Rightarrow>
          (let st = scanLines response;
               problem1 = (if p_problem st = [] then take 200 response @ ''...'' else p_problem st);
               fix1 = (if p_suggestedFix st = [] then ''Manual review required'' else p_suggestedFix st)
           in \<lparr>problem = problem1, suggestedFix = fix1, nextSteps = p_nextSteps st,
               specialInstructions = fix1, confidence = p_confidence st\<rparr>))"


section \<open>Files and JSON\<close>

text \<open>
  A parsed JSON document. A number keeps its literal text; an object keeps its members in
  order (\<open>JSON.parse\<close> leaves each key once).
\<close>

datatype json =
    JNull
  | JBool bool
  | JNum string
  | JStr string
  | JArr "json list"
  | JObj "(string \<times> json) list"

text \<open>
  The file system the program sees: the contents of the files, the directories, and the
  paths the operating system refuses to read, create or write.
\<close>

record FS =
  files :: "string \<rightharpoonup> string"
  dirs :: "string set"
  denied :: "string \<Rightarrow> bool"

definition dirname :: "string \<Rightarrow> string option" where
  "dirname p =
     (if CHR ''/'' \<in> set p
      then Some (rev (tl (dropWhile (\<lambda>c. c \<noteq> CHR ''/'') (rev p))))
      else None)"

definition existsSync :: "FS \<Rightarrow> string \<Rightarrow> bool" where
  "existsSync fs p = (files fs p \<noteq> None \<or> p \<in> dirs fs)"

definition mkdirSync :: "FS \<Rightarrow> string \<Rightarrow> FS res" where
  "mkdirSync fs p =
     (if denied fs p then Inl (''EACCES: permission denied, mkdir '' @ p)
      else if existsSync fs p then Inl (''EEXIST: file already exists, mkdir '' @ p)
      else Inr (fs\<lparr>dirs := insert p (dirs fs)\<rparr>))"

definition readFileSync :: "FS \<Rightarrow> string \<Rightarrow> string res" where
  "readFileSync fs p =
     (if denied fs p then Inl (''EACCES: permission denied, open '' @ p)
      else case files fs p of
             None \<Rightarrow> Inl (''ENOENT: no such file or directory, open '' @ p)
           | Some data \<Rightarrow> Inr data)"

definition writeFileSync :: "FS \<Rightarrow> string \<Rightarrow> string \<Rightarrow> FS res" where
  "writeFileSync fs p data =
     (if denied fs p then Inl (''EACCES: permission denied, open '' @ p)
      else if p \<in> dirs fs then Inl (''EISDIR: illegal operation on a directory, open '' @ p)
      else case dirname p of
             None \<Rightarrow> Inr (fs\<lparr>files := (files fs)(p \<mapsto> data)\<rparr>)
           | Some d \<Rightarrow>
               if d \<in> dirs fs then Inr (fs\<lparr>files := (files fs)(p \<mapsto> data)\<rparr>)
               else Inl (''ENOENT: no such file or directory, open '' @ p))"

section \<open>Outcome analyzer: folding a diagnosis into the catalog (ai-analyzer.ts)\<close>

text \<open>The object \<open>JSON.stringify\<close> sees for a broker: its keys in the schema's order.\<close>

definition broker_json :: "Broker \<Rightarrow> json" where
  "broker_json b =
     JObj [(''name'', JStr (name b)), (''url'', JStr (url b)),
           (''opt_out_url'', JStr (opt_out_url b)),
           (''requires_id_upload'', JBool (requires_id_upload b)),
           (''notes'', JStr (broker_notes b))]"

text \<open>
  \<open>b.name === updatedBroker.name\<close> on one parsed entry: reading a property of \<open>null\<close>
  throws, an entry that is no object or has no string \<open>name\<close> compares unequal.
\<close>

definition nameMatches :: "string \<Rightarrow> json \<Rightarrow> bool res" where
  "nameMatches nm b =
     (case b of
        JNull \<Rightarrow> Inl ''Cannot read properties of null (reading name)''
      | JObj kvs \<Rightarrow> Inr (map_of kvs ''name'' = Some (JStr nm))
      | _ \<Rightarrow> Inr False)"

text \<open>\<open>brokers.findIndex(...)\<close> from index \<open>i\<close> on: \<open>None\<close> is the answer \<open>-1\<close>.\<close>

fun findIndex :: "string \<Rightarrow> json list \<Rightarrow> nat \<Rightarrow> nat option res" where
  "findIndex nm [] i = Inr None"
| "findIndex nm (b # bs) i =
     (case nameMatches nm b of
        Inl e \<Rightarrow> Inl e
      | Inr True \<Rightarrow> Inr (Some i)
      | Inr False \<Rightarrow> findIndex nm bs (Suc i))"

text \<open>
  The host's \<open>JSON.parse\<close> and \<open>JSON.stringify(_, null, 2)\<close> are taken as they are:
  any text-to-document and document-to-text functions.
\<close>

record Codec =
  JSON_parse :: "string \<Rightarrow> json res"
  JSON_stringify :: "json \<Rightarrow> string"

text \<open>
  \<open>saveUpdatedBroker\<close>: every throw inside is caught and only printed, so the function
  returns the file system it leaves behind.
\<close>

definition saveUpdatedBroker :: "Codec \<Rightarrow> Broker \<Rightarrow> FS \<Rightarrow> FS" where
  "saveUpdatedBroker js updatedBroker fs =
     (case readFileSync fs ''brokers.json'' of
        Inl e \<Rightarrow> fs
      | Inr brokersData \<Rightarrow>
          (case JSON_parse js brokersData of
             Inl e \<Rightarrow> fs
           | Inr (JArr brokers) \<Rightarrow>
               (case findIndex (name updatedBroker) brokers 0 of
                  Inl e \<Rightarrow> fs
                | Inr None \<Rightarrow> fs
                | Inr (Some brokerIndex) \<Rightarrow>
                    (case writeFileSync fs ''brokers.json''
                            (JSON_stringify js (JArr (brokers[brokerIndex := broker_json updatedBroker]))) of
                       Inl e \<Rightarrow> fs
                     | Inr fs' \<Rightarrow> fs'))
           | Inr _ \<Rightarrow> fs))"

definition annotation :: "FailureAnalysis \<Rightarrow> string" where
  "annotation analysis =
     [CHR 0x0A, CHR 0x0A] @ ''AI Analysis ('' @ showNum (confidence analysis) @ ''/10): ''
       @ specialInstructions analysis"

text \<open>\<open>updateBrokerWithAnalysis\<close>: the returned copy of the broker, and the file system.\<close>

definition updateBrokerWithAnalysis :: "Codec \<Rightarrow> Broker \<Rightarrow> FailureAnalysis \<Rightarrow> FS \<Rightarrow> Broker \<times> FS" where
  "updateBrokerWithAnalysis js broker analysis fs =
     (if js_ge (confidence analysis) (Num 6)
      then (let updatedBroker = broker\<lparr>broker_notes := broker_notes broker @ annotation analysis\<rparr>
            in (updatedBroker, saveUpdatedBroker js updatedBroker fs))
      else (broker, fs))"

section \<open>Data model, continued (types.ts)\<close>

record User =
  firstName :: string
  lastName :: string
  email :: string
  address :: string
  city :: string
  state :: string
  zip_code :: string
  phone :: string
  dateOfBirth :: string
  additionalNotes :: "string option"

text \<open>
  \<open>RemovalResult\<close>, with the two members the engine adds through \<open>(result as any)\<close>:
  \<open>screenshot\<close> and \<open>aiAnalysis\<close>. A \<open>Date\<close> is its time value in milliseconds.
\<close>

record RemovalResult =
  broker :: Broker
  success :: bool
  error :: "string option"
  timestamp :: int
  details :: "string option"
  screenshot :: "string option"
  aiAnalysis :: "FailureAnalysis option"

record RemovalSession =
  user :: User
  results :: "RemovalResult list"
  startTime :: int
  endTime :: "int option"

section \<open>The page-understanding oracle (Stagehand page)\<close>

text \<open>The shapes the engine asks \<open>page.extract\<close> for, one record per schema.\<close>

record SearchCheck =
  hasSearchForm :: bool
  hasRemovalForm :: bool
  pageType :: string
  needsSearchFirst :: bool

record ListingCheck =
  foundListing :: bool
  listingText :: string
  clickedListing :: bool

record FallbackCheck =
  foundPossibleListing :: bool
  clickedPossibleListing :: bool

record FieldCheck =
  allFieldsFilled :: bool
  missingFields :: "string list"
  filledFields :: "string list"

record CheckboxCheck =
  foundCheckboxes :: bool
  checkedCheckboxes :: bool
  checkboxCount :: int
  checkboxTypes :: "string list"

record RadioCheck =
  foundRadioButtons :: bool
  selectedRadioButtons :: bool
  radioButtonCount :: int

record ReadyCheck =
  formReady :: bool
  missingRequired :: "string list"
  uncheckedCheckboxes :: "string list"
  submitButtonText :: string

record Recheck =
  formReadyNow :: bool
  stillMissing :: "string list"

record ErrorCheck =
  foundErrorIndicators :: bool
  errorMessages :: "string list"
  hasMissingFields :: bool
  hasUncheckedCheckboxes :: bool

record SuccessCheck =
  foundSuccessText :: bool
  successText :: string
  pageTitle :: string
  mainContent :: string

record FormCheck =
  stillOnForm :: bool
  hasSubmitButton :: bool
  hasFormFields :: bool
  formPageType :: string

text \<open>
  The instructions handed to \<open>page.act\<close>, one constructor per instruction text, with
  the values the text interpolates:
  \<^item> \<open>SearchFor\<close>: "Find and fill out the search form with the following information ...";
  \<^item> \<open>FillForm\<close>: "Fill out the data removal form with the following information ...";
  \<^item> \<open>FillRemaining\<close>: "Fill any remaining empty fields with the user's information";
  \<^item> \<open>ExecuteSteps\<close>: "Execute these specific steps exactly: ...";
  \<^item> \<open>FillEmptyRequired\<close>: "Fill any empty required fields with appropriate information";
  \<^item> \<open>CheckUnchecked\<close>: "Check any unchecked required checkboxes";
  \<^item> \<open>ClickSubmit\<close>: "Find and click the submit button, or any button that says ...".
\<close>

datatype action =
    SearchFor User
  | FillForm User
  | FillRemaining
  | ExecuteSteps string
  | FillEmptyRequired
  | CheckUnchecked
  | ClickSubmit

datatype probe =
    SearchProbe | ListingProbe | FallbackProbe | FieldProbe | CheckboxProbe | RadioProbe
  | ReadyProbe | RecheckProbe | ErrorProbe | SuccessProbe | FormProbe

text \<open>
  The page is a remote object with a hidden state \<open>'p\<close>: every operation takes the state,
  answers or throws, and leaves a new state. \<open>page.extract\<close> is one operation per schema.
\<close>

record 'p Page =
  goto :: "string \<Rightarrow> 'p \<Rightarrow> unit res \<times> 'p"
  waitForLoadState :: "'p \<Rightarrow> unit res \<times> 'p"
  waitForTimeout :: "nat \<Rightarrow> 'p \<Rightarrow> unit res \<times> 'p"
  act :: "action \<Rightarrow> 'p \<Rightarrow> unit res \<times> 'p"
  extractSearchCheck :: "'p \<Rightarrow> SearchCheck res \<times> 'p"
  extractListingCheck :: "User \<Rightarrow> 'p \<Rightarrow> ListingCheck res \<times> 'p"
  extractFallbackCheck :: "'p \<Rightarrow> FallbackCheck res \<times> 'p"
  extractFieldCheck :: "'p \<Rightarrow> FieldCheck res \<times> 'p"
  extractCheckboxCheck :: "'p \<Rightarrow> CheckboxCheck res \<times> 'p"
  extractRadioCheck :: "'p \<Rightarrow> RadioCheck res \<times> 'p"
  extractReadyCheck :: "'p \<Rightarrow> ReadyCheck res \<times> 'p"
  extractRecheck :: "'p \<Rightarrow> Recheck res \<times> 'p"
  extractErrorCheck :: "'p \<Rightarrow> ErrorCheck res \<times> 'p"
  extractSuccessCheck :: "'p \<Rightarrow> SuccessCheck res \<times> 'p"
  extractFormCheck :: "'p \<Rightarrow> FormCheck res \<times> 'p"
  takeScreenshot :: "'p \<Rightarrow> string res \<times> 'p"

text \<open>
  What else the program reaches outside itself: the completion endpoint
  (\<open>callOpenAIWithVision\<close>, given the broker's name, its opt-out URL, the error text and
  the image; it throws, or returns the message content, \<open>None\<close> for a content that is no
  string), the clock (\<open>new Date()\<close>), and the host's JSON functions.
  \<open>stringifySession\<close> is \<open>JSON.stringify(session, null, 2)\<close>.
\<close>

record 'p Host =
  completion :: "string \<Rightarrow> string \<Rightarrow> string \<Rightarrow> string \<Rightarrow> 'p \<Rightarrow> string option res \<times> 'p"
  clock :: "'p \<Rightarrow> int"
  codec :: Codec
  stringifySession :: "RemovalSession \<Rightarrow> string"

text \<open>
  The method that issues a call, and the call. The log \<open>calls\<close> of the world keeps
  them in order; the program never reads it.
\<close>

datatype site =
    AtRemoveFromBroker | AtCheckIfNeedsSearch | AtPerformSearch | AtFindAndClickListing
  | AtApplySpecialInstructions | AtFillRemovalForm | AtHandleCheckboxesAndTerms
  | AtSubmitRemovalForm | AtVerifySubmission | AtAnalyzeFailureScreenshot

datatype call =
    Goto string
  | WaitForLoadState
  | WaitForTimeout nat
  | Act action
  | Extract probe
  | Screenshot
  | Completion

record 'p World =
  remote :: 'p
  fs :: FS
  calls :: "(site \<times> call) list"

type_synonym ('p, 'a) io = "'p World \<Rightarrow> 'a res \<times> 'p World"

definition ret :: "'a \<Rightarrow> ('p, 'a) io" where
  "ret x w = (Inr x, w)"

text \<open>Sequencing: a throw skips the rest.\<close>

definition andThen :: "('p, 'a) io \<Rightarrow> ('a \<Rightarrow> ('p, 'b) io) \<Rightarrow> ('p, 'b) io" where
  "andThen m f w = (case m w of (Inl e, w') \<Rightarrow> (Inl e, w') | (Inr x, w') \<Rightarrow> f x w')"

text \<open>One awaited call on the remote side, logged.\<close>

definition perform :: "site \<Rightarrow> call \<Rightarrow> ('p \<Rightarrow> 'a res \<times> 'p) \<Rightarrow> ('p, 'a) io" where
  "perform s c f w =
     (case f (remote w) of (r, p') \<Rightarrow> (r, w\<lparr>remote := p', calls := calls w @ [(s, c)]\<rparr>))"

section \<open>Removal workflow engine (removal-engine.ts)\<close>

definition searchFirstBrokers :: "string list" where
  "searchFirstBrokers =
     [''Whitepages'', ''Spokeo'', ''BeenVerified'', ''Intelius'', ''TruthFinder'',
      ''MyLife'', ''Radaris'', ''US Search'', ''411.com'', ''411 Locate'']"

definition checkIfNeedsSearch :: "'p Page \<Rightarrow> Broker \<Rightarrow> ('p, bool) io" where
  "checkIfNeedsSearch page b =
     andThen (perform AtCheckIfNeedsSearch (Extract SearchProbe) (extractSearchCheck page))
       (\<lambda>searchCheck. ret (needsSearchFirst searchCheck \<or> name b \<in> set searchFirstBrokers))"

definition performSearch :: "'p Page \<Rightarrow> User \<Rightarrow> ('p, unit) io" where
  "performSearch page u = perform AtPerformSearch (Act (SearchFor u)) (act page (SearchFor u))"

definition findAndClickListing :: "'p Page \<Rightarrow> User \<Rightarrow> ('p, bool) io" where
  "findAndClickListing page u =
     andThen (perform AtFindAndClickListing (Extract ListingProbe) (extractListingCheck page u))
       (\<lambda>listingCheck.
          if foundListing listingCheck \<and> clickedListing listingCheck then ret True
          else andThen (perform AtFindAndClickListing (Extract FallbackProbe) (extractFallbackCheck page))
                 (\<lambda>fallbackCheck.
                    ret (foundPossibleListing fallbackCheck \<and> clickedPossibleListing fallbackCheck)))"

definition handleCheckboxesAndTerms :: "'p Page \<Rightarrow> ('p, unit) io" where
  "handleCheckboxesAndTerms page =
     andThen (perform AtHandleCheckboxesAndTerms (Extract CheckboxProbe) (extractCheckboxCheck page))
       (\<lambda>checkboxCheck.
     andThen (perform AtHandleCheckboxesAndTerms (Extract RadioProbe) (extractRadioCheck page))
       (\<lambda>radioCheck. ret ()))"

definition fillRemovalForm :: "'p Page \<Rightarrow> User \<Rightarrow> ('p, unit) io" where
  "fillRemovalForm page u =
     andThen (perform AtFillRemovalForm (Act (FillForm u)) (act page (FillForm u))) (\<lambda>_.
     andThen (perform AtFillRemovalForm (WaitForTimeout 1000) (waitForTimeout page 1000)) (\<lambda>_.
     andThen (perform AtFillRemovalForm (Extract FieldProbe) (extractFieldCheck page)) (\<lambda>fieldCheck.
     andThen (if \<not> allFieldsFilled fieldCheck
              then andThen (perform AtFillRemovalForm (Act FillRemaining) (act page FillRemaining)) (\<lambda>_.
                   perform AtFillRemovalForm (WaitForTimeout 1000) (waitForTimeout page 1000))
              else ret ()) (\<lambda>_.
     handleCheckboxesAndTerms page))))"

text \<open>
  The pattern \<open>/AI Analysis \(\d+\/10\): (.+)/\<close> tried at the head of a string: the
  captured group, the rest of the line (\<open>.\<close> stops at LF and CR), which must not be empty.
\<close>

definition isDecDigit :: "char \<Rightarrow> bool" where
  "isDecDigit c = (let n = (of_char c :: nat) in 48 \<le> n \<and> n \<le> 57)"

definition isLineTerminator :: "char \<Rightarrow> bool" where
  "isLineTerminator c = (let n = (of_char c :: nat) in n = 10 \<or> n = 13)"

definition matchAIAnalysisHere :: "string \<Rightarrow> string option" where
  "matchAIAnalysisHere s =
     (if startsWith s ''AI Analysis (''
      then (let r1 = drop 13 s;
                ds = takeWhile isDecDigit r1;
                r2 = dropWhile isDecDigit r1
            in if ds \<noteq> [] \<and> startsWith r2 ''/10): ''
               then (let cap = takeWhile (\<lambda>c. \<not> isLineTerminator c) (drop 6 r2)
                     in if cap \<noteq> [] then Some cap else None)
               else None)
      else None)"

text \<open>\<open>notes.match(...)\<close>: the leftmost match, \<open>None\<close> for \<open>null\<close>.\<close>

fun matchAIAnalysis :: "string \<Rightarrow> string option" where
  "matchAIAnalysis [] = None"
| "matchAIAnalysis (c # cs) =
     (case matchAIAnalysisHere (c # cs) of
        Some cap \<Rightarrow> Some cap
      | None \<Rightarrow> matchAIAnalysis cs)"

definition hasInstructions :: "Broker \<Rightarrow> bool" where
  "hasInstructions b =
     (broker_notes b \<noteq> [] \<and>
      (js_includes (broker_notes b) ''AI Analysis'' \<or> js_includes (broker_notes b) ''Enter your email''
       \<or> js_includes (broker_notes b) ''Click the''))"

definition applySpecialInstructions :: "'p Page \<Rightarrow> Broker \<Rightarrow> ('p, unit) io" where
  "applySpecialInstructions page b =
     (if hasInstructions b
      then (let instructions =
                  (if js_includes (broker_notes b) ''AI Analysis''
                   then (case matchAIAnalysis (broker_notes b) of
                           Some cap \<Rightarrow> cap
                         | None \<Rightarrow> [])
                   else broker_notes b)
            in if instructions \<noteq> []
               then perform AtApplySpecialInstructions (Act (ExecuteSteps instructions))
                      (act page (ExecuteSteps instructions))
               else ret ())
      else ret ())"

definition clickSubmit :: "'p Page \<Rightarrow> ('p, unit) io" where
  "clickSubmit page =
     andThen (perform AtSubmitRemovalForm (Act ClickSubmit) (act page ClickSubmit)) (\<lambda>_.
     perform AtSubmitRemovalForm WaitForLoadState (waitForLoadState page))"

text \<open>\<open>clickSubmit\<close> is the tail of \<open>submitRemovalForm\<close> that the early \<open>return\<close>s skip.\<close>

definition submitRemovalForm :: "'p Page \<Rightarrow> ('p, unit) io" where
  "submitRemovalForm page =
     andThen (perform AtSubmitRemovalForm (Act FillEmptyRequired) (act page FillEmptyRequired)) (\<lambda>_.
     andThen (perform AtSubmitRemovalForm (Extract ReadyProbe) (extractReadyCheck page)) (\<lambda>formCheck.
       if \<not> formReady formCheck
       then (if length (uncheckedCheckboxes formCheck) > 0
             then andThen (perform AtSubmitRemovalForm (Act CheckUnchecked) (act page CheckUnchecked)) (\<lambda>_.
                  andThen (perform AtSubmitRemovalForm (WaitForTimeout 1000) (waitForTimeout page 1000)) (\<lambda>_.
                  andThen (perform AtSubmitRemovalForm (Extract RecheckProbe) (extractRecheck page)) (\<lambda>recheck.
                    if \<not> formReadyNow recheck then ret () else clickSubmit page)))
             else ret ())
       else clickSubmit page))"

record Verification =
  v_success :: bool
  v_message :: string

definition verifySubmission :: "'p Page \<Rightarrow> ('p, Verification) io" where
  "verifySubmission page =
     andThen (perform AtVerifySubmission (WaitForTimeout 2000) (waitForTimeout page 2000)) (\<lambda>_.
     andThen (perform AtVerifySubmission (Extract ErrorProbe) (extractErrorCheck page)) (\<lambda>errorCheck.
       if foundErrorIndicators errorCheck
       then ret \<lparr>v_success = False,
                 v_message = ''Form errors detected: '' @ js_join '', '' (errorMessages errorCheck)\<rparr>
       else
     andThen (perform AtVerifySubmission (Extract SuccessProbe) (extractSuccessCheck page)) (\<lambda>successCheck.
       if foundSuccessText successCheck
       then ret \<lparr>v_success = True, v_message = ''Success confirmed: '' @ successText successCheck\<rparr>
       else
     andThen (perform AtVerifySubmission (Extract FormProbe) (extractFormCheck page)) (\<lambda>formCheck.
       if stillOnForm formCheck \<or> hasSubmitButton formCheck \<or> hasFormFields formCheck
       then ret \<lparr>v_success = False,
                 v_message = ''Still on form page - submission failed. Page type: '' @ formPageType formCheck\<rparr>
       else ret \<lparr>v_success = False,
                 v_message = ''Unable to verify success - no clear success indicators found''\<rparr>))))"

subsection \<open>Evidence\<close>

text \<open>\<open>broker.name.replace(/[^a-zA-Z0-9_-]/g, "_")\<close>\<close>

definition sanitizeChar :: "char \<Rightarrow> char" where
  "sanitizeChar c =
     (let n = (of_char c :: nat)
      in if (97 \<le> n \<and> n \<le> 122) \<or> (65 \<le> n \<and> n \<le> 90) \<or> (48 \<le> n \<and> n \<le> 57) \<or> n = 95 \<or> n = 45
         then c else CHR ''_'')"

definition screenshotPathFor :: "bool \<Rightarrow> Broker \<Rightarrow> string" where
  "screenshotPathFor ok b =
     ''screenshots/'' @ (if ok then ''success'' else ''failure'') @ ''-''
       @ map sanitizeChar (name b) @ ''.png''"

text \<open>
  The inner \<open>try\<close>/\<open>catch\<close> around \<open>page.screenshot\<close> and \<open>fs.writeFileSync\<close>: the
  value it leaves in \<open>result.screenshot\<close>.
\<close>

definition saveScreenshot :: "'p Page \<Rightarrow> string \<Rightarrow> 'p World \<Rightarrow> string \<times> 'p World" where
  "saveScreenshot page path w =
     (case perform AtRemoveFromBroker Screenshot (takeScreenshot page) w of
        (Inl e, w1) \<Rightarrow> (''failed_to_save'', w1)
      | (Inr screenshotBuffer, w1) \<Rightarrow>
          (case writeFileSync (fs w1) path screenshotBuffer of
             Inl e \<Rightarrow> (''failed_to_save'', w1)
           | Inr fs' \<Rightarrow> (path, w1\<lparr>fs := fs'\<rparr>)))"

subsection \<open>Failure analysis (ai-analyzer.ts)\<close>

definition analysisFailed :: FailureAnalysis where
  "analysisFailed =
     \<lparr>problem = ''Analysis failed'', suggestedFix = ''Manual review required'',
      nextSteps = [''Check screenshot manually''], specialInstructions = '''',
      confidence = Num 0\<rparr>"

text \<open>\<open>analyzeFailureScreenshot\<close> never throws: its \<open>catch\<close> answers \<open>analysisFailed\<close>.\<close>

definition analyzeFailureScreenshot ::
  "'p Host \<Rightarrow> string \<Rightarrow> Broker \<Rightarrow> string \<Rightarrow> 'p World \<Rightarrow> FailureAnalysis \<times> 'p World" where
  "analyzeFailureScreenshot host path b err w =
     (case readFileSync (fs w) path of
        Inl e \<Rightarrow> (analysisFailed, w)
      | Inr screenshotBuffer \<Rightarrow>
          (case perform AtAnalyzeFailureScreenshot Completion
                  (completion host (name b) (opt_out_url b) err screenshotBuffer) w of
             (Inl e, w1) \<Rightarrow> (analysisFailed, w1)
           | (Inr content, w1) \<Rightarrow> (parseAnalysisResponse content, w1)))"

subsection \<open>One broker\<close>

text \<open>
  Lines 166 to 207: the verdict is stored, the evidence is taken, and a failure with saved
  evidence is analysed. \<open>result.error || result.details || "Unknown error"\<close> is the error
  text given to the analyzer.
\<close>

definition errorText :: "RemovalResult \<Rightarrow> string" where
  "errorText r =
     orElse (case error r of None \<Rightarrow> [] | Some e \<Rightarrow> e)
       (orElse (case details r of None \<Rightarrow> [] | Some d \<Rightarrow> d) ''Unknown error'')"

definition conclude ::
  "'p Host \<Rightarrow> 'p Page \<Rightarrow> Broker \<Rightarrow> RemovalResult \<Rightarrow> Verification \<Rightarrow> ('p, RemovalResult) io" where
  "conclude host page b result verification w =
     (let result1 = result\<lparr>success := v_success verification, details := Some (v_message verification)\<rparr>
      in case saveScreenshot page (screenshotPathFor (success result1) b) w of
           (shot, w1) \<Rightarrow>
             (let result2 = result1\<lparr>screenshot := Some shot\<rparr>
              in if success result2 then (Inr result2, w1)
                 else if shot \<noteq> [] \<and> shot \<noteq> ''failed_to_save''
                 then (case analyzeFailureScreenshot host shot b (errorText result2) w1 of
                         (analysis, w2) \<Rightarrow>
                           (case updateBrokerWithAnalysis (codec host) b analysis (fs w2) of
                              (updatedBroker, fs') \<Rightarrow>
                                (Inr (result2\<lparr>aiAnalysis := Some analysis\<rparr>), w2\<lparr>fs := fs'\<rparr>)))
                 else (Inr result2, w1)))"

text \<open>
  The \<open>try\<close> block. \<open>listingOk = False\<close> is the early \<open>return result\<close> of line 141,
  taken when the listing was not found.
\<close>

definition attempt ::
  "'p Host \<Rightarrow> 'p Page \<Rightarrow> Broker \<Rightarrow> User \<Rightarrow> RemovalResult \<Rightarrow> ('p, RemovalResult) io" where
  "attempt host page b u result =
     andThen (perform AtRemoveFromBroker (Goto (opt_out_url b)) (goto page (opt_out_url b))) (\<lambda>_.
     andThen (perform AtRemoveFromBroker WaitForLoadState (waitForLoadState page)) (\<lambda>_.
     andThen (checkIfNeedsSearch page b) (\<lambda>needsSearch.
     andThen (if needsSearch
              then andThen (performSearch page u) (\<lambda>_.
                   andThen (perform AtRemoveFromBroker WaitForLoadState (waitForLoadState page)) (\<lambda>_.
                   andThen (findAndClickListing page u) (\<lambda>listingFound.
                     if \<not> listingFound then ret False
                     else andThen (perform AtRemoveFromBroker WaitForLoadState (waitForLoadState page))
                            (\<lambda>_. ret True))))
              else ret True) (\<lambda>listingOk.
       if \<not> listingOk then ret (result\<lparr>error := Some ''Could not find user listing''\<rparr>)
       else
     andThen (if hasInstructions b then applySpecialInstructions page b else ret ()) (\<lambda>_.
     andThen (fillRemovalForm page u) (\<lambda>_.
     andThen (submitRemovalForm page) (\<lambda>_.
     andThen (verifySubmission page) (\<lambda>verification.
     conclude host page b result verification))))))))"

text \<open>
  The outer \<open>catch\<close>: every assignment to \<open>result\<close> in the \<open>try\<close> block comes after the
  last call that can throw, so the handler starts from the initial \<open>result\<close>.
\<close>

definition onError :: "'p Page \<Rightarrow> Broker \<Rightarrow> RemovalResult \<Rightarrow> string \<Rightarrow> ('p, RemovalResult) io" where
  "onError page b result e w =
     (case saveScreenshot page (screenshotPathFor False b) w of
        (shot, w1) \<Rightarrow> (Inr (result\<lparr>error := Some e, screenshot := Some shot\<rparr>), w1))"

definition ensureScreenshotsDir :: "FS \<Rightarrow> FS res" where
  "ensureScreenshotsDir f =
     (if \<not> existsSync f ''screenshots'' then mkdirSync f ''screenshots'' else Inr f)"

text \<open>\<open>stagehand = None\<close> is the engine before \<open>initialize\<close>.\<close>

definition removeFromBroker ::
  "'p Host \<Rightarrow> 'p Page option \<Rightarrow> Broker \<Rightarrow> User \<Rightarrow> ('p, RemovalResult) io" where
  "removeFromBroker host stagehand b u w =
     (case stagehand of
        None \<Rightarrow> (Inl ''Stagehand not initialized'', w)
      | Some page \<Rightarrow>
          (case ensureScreenshotsDir (fs w) of
             Inl e \<Rightarrow> (Inl e, w)
           | Inr fs1 \<Rightarrow>
               (let w1 = w\<lparr>fs := fs1\<rparr>;
                    result = \<lparr>broker = b, success = False, error = None,
                              timestamp = clock host (remote w1), details = None,
                              screenshot = None, aiAnalysis = None\<rparr>
                in case attempt host page b u result w1 of
                     (Inr r, w2) \<Rightarrow> (Inr r, w2)
                   | (Inl e, w2) \<Rightarrow> onError page b result e w2)))"

section \<open>Session orchestrator (index.ts)\<close>

text \<open>
  The body of the loop of \<open>main\<close> for one broker: the session and the world it leaves.
  When \<open>writeFileSync\<close> throws, the \<open>catch\<close> pushes a second entry for the broker.
\<close>

definition failureEntry :: "'p Host \<Rightarrow> Broker \<Rightarrow> string \<Rightarrow> 'p World \<Rightarrow> RemovalResult" where
  "failureEntry host b e w =
     \<lparr>broker = b, success = False, error = Some e, timestamp = clock host (remote w),
      details = None, screenshot = None, aiAnalysis = None\<rparr>"

definition processBroker ::
  "'p Host \<Rightarrow> 'p Page option \<Rightarrow> User \<Rightarrow> RemovalSession \<times> 'p World \<Rightarrow> Broker
     \<Rightarrow> RemovalSession \<times> 'p World" where
  "processBroker host engine u sw b =
     (case sw of (session, w) \<Rightarrow>
        (case removeFromBroker host engine b u w of
           (Inr result, w1) \<Rightarrow>
             (let session1 = session\<lparr>results := results session @ [result]\<rparr>
              in case writeFileSync (fs w1) ''removal-session.json'' (stringifySession host session1) of
                   Inr fs' \<Rightarrow> (session1, w1\<lparr>fs := fs'\<rparr>)
                 | Inl e \<Rightarrow>
                     (session1\<lparr>results := results session1 @ [failureEntry host b e w1]\<rparr>, w1))
         | (Inl e, w1) \<Rightarrow>
             (session\<lparr>results := results session @ [failureEntry host b e w1]\<rparr>, w1)))"

definition processBrokers ::
  "'p Host \<Rightarrow> 'p Page option \<Rightarrow> User \<Rightarrow> Broker list \<Rightarrow> RemovalSession \<times> 'p World
     \<Rightarrow> RemovalSession \<times> 'p World" where
  "processBrokers host engine u brokersToProcess sw = foldl (processBroker host engine u) sw brokersToProcess"

section \<open>User profile: schema and prompts (types.ts, cli.ts)\<close>

definition stringMember :: "(string \<times> json) list \<Rightarrow> string \<Rightarrow> string option" where
  "stringMember kvs k = (case map_of kvs k of Some (JStr s) \<Rightarrow> Some s | _ \<Rightarrow> None)"

text \<open>\<open>z.string().optional()\<close>: an absent member or a string; \<open>None\<close> is an issue.\<close>

definition optionalStringMember :: "(string \<times> json) list \<Rightarrow> string \<Rightarrow> string option option" where
  "optionalStringMember kvs k =
     (case map_of kvs k of
        None \<Rightarrow> Some None
      | Some (JStr s) \<Rightarrow> Some (Some s)
      | Some _ \<Rightarrow> None)"

text \<open>
  \<open>UserSchema.parse\<close>: \<open>None\<close> is the thrown \<open>ZodError\<close>. The check behind
  \<open>z.string().email()\<close> belongs to the schema library; the model takes it as \<open>isEmail\<close>.
\<close>

definition UserSchema_parse :: "(string \<Rightarrow> bool) \<Rightarrow> json \<Rightarrow> User option" where
  "UserSchema_parse isEmail j =
     (case j of
        JObj kvs \<Rightarrow>
          Option.bind (stringMember kvs ''firstName'') (\<lambda>v1.
          Option.bind (stringMember kvs ''lastName'') (\<lambda>v2.
          Option.bind (stringMember kvs ''email'') (\<lambda>v3.
          Option.bind (stringMember kvs ''address'') (\<lambda>v4.
          Option.bind (stringMember kvs ''city'') (\<lambda>v5.
          Option.bind (stringMember kvs ''state'') (\<lambda>v6.
          Option.bind (stringMember kvs ''zip'') (\<lambda>v7.
          Option.bind (stringMember kvs ''phone'') (\<lambda>v8.
          Option.bind (stringMember kvs ''dateOfBirth'') (\<lambda>v9.
          Option.bind (optionalStringMember kvs ''additionalNotes'') (\<lambda>v10.
            if isEmail v3
            then Some \<lparr>firstName = v1, lastName = v2, email = v3, address = v4, city = v5,
                       state = v6, zip_code = v7, phone = v8, dateOfBirth = v9,
                       additionalNotes = v10\<rparr>
            else None))))))))))
      | _ \<Rightarrow> None)"

subsection \<open>The validators of the prompts\<close>

text \<open>A validator answers \<open>Inr ()\<close> for \<open>true\<close> and \<open>Inl msg\<close> for its message.\<close>

definition required :: "string \<Rightarrow> string \<Rightarrow> unit res" where
  "required msg input = (if trim input \<noteq> [] then Inr () else Inl msg)"

text \<open>\<open>/^[^\s@]+@[^\s@]+\.[^\s@]+$/\<close>\<close>

definition plainChar :: "char \<Rightarrow> bool" where
  "plainChar c = (\<not> isSpace c \<and> c \<noteq> CHR ''@'')"

definition emailRegex :: "string \<Rightarrow> bool" where
  "emailRegex s =
     (let localPart = takeWhile plainChar s;
          rest = dropWhile plainChar s
      in localPart \<noteq> [] \<and> rest \<noteq> [] \<and> hd rest = CHR ''@'' \<and>
         (let d = tl rest
          in list_all plainChar d \<and> list_ex (\<lambda>i. d ! i = CHR ''.'') [1..<length d - 1]))"

definition validateEmail :: "string \<Rightarrow> unit res" where
  "validateEmail input =
     (if emailRegex input then Inr () else Inl ''Please enter a valid email address'')"

text \<open>\<open>/^[A-Z]{2}$/\<close> on \<open>input.toUpperCase()\<close>\<close>

definition isUpperAZ :: "char \<Rightarrow> bool" where
  "isUpperAZ c = (let n = (of_char c :: nat) in 65 \<le> n \<and> n \<le> 90)"

definition stateRegex :: "string \<Rightarrow> bool" where
  "stateRegex s = (length s = 2 \<and> list_all isUpperAZ s)"

definition validateState :: "string \<Rightarrow> unit res" where
  "validateState input =
     (if stateRegex (toUpperCase input) then Inr ()
      else Inl ''Please enter a valid 2-letter state code'')"

text \<open>\<open>/^\d{5}(-\d{4})?$/\<close>\<close>

definition zipRegex :: "string \<Rightarrow> bool" where
  "zipRegex s =
     (length s \<ge> 5 \<and> list_all isDecDigit (take 5 s) \<and>
      (drop 5 s = [] \<or>
       (length s = 10 \<and> s ! 5 = CHR ''-'' \<and> list_all isDecDigit (drop 6 s))))"

definition validateZip :: "string \<Rightarrow> unit res" where
  "validateZip input = (if zipRegex input then Inr () else Inl ''Please enter a valid ZIP code'')"

text \<open>\<open>/^[\+]?[1-9][\d]{0,15}$/\<close> on the input without \<open>/[\s\-\(\)]/g\<close>\<close>

definition phoneRegex :: "string \<Rightarrow> bool" where
  "phoneRegex s =
     (let s1 = (if s \<noteq> [] \<and> hd s = CHR ''+'' then tl s else s)
      in s1 \<noteq> [] \<and> isDecDigit (hd s1) \<and> hd s1 \<noteq> CHR ''0'' \<and>
         list_all isDecDigit (tl s1) \<and> length (tl s1) \<le> 15)"

definition stripPhone :: "string \<Rightarrow> string" where
  "stripPhone input =
     filter (\<lambda>c. \<not> (isSpace c \<or> c = CHR ''-'' \<or> c = CHR ''('' \<or> c = CHR '')'')) input"

definition validatePhone :: "string \<Rightarrow> unit res" where
  "validatePhone input =
     (if phoneRegex (stripPhone input) then Inr () else Inl ''Please enter a valid phone number'')"

text \<open>\<open>/^\d{4}-\d{2}-\d{2}$/\<close>\<close>

definition dateRegex :: "string \<Rightarrow> bool" where
  "dateRegex s =
     (length s = 10 \<and> list_all isDecDigit (take 4 s) \<and> s ! 4 = CHR ''-'' \<and>
      list_all isDecDigit (take 2 (drop 5 s)) \<and> s ! 7 = CHR ''-'' \<and>
      list_all isDecDigit (drop 8 s))"

text \<open>
  A \<open>Date\<close> built from text is its time value, \<open>None\<close> for an invalid date; \<open>a > b\<close> and
  \<open>a < b\<close> are false when either side is invalid. \<open>parseDate\<close> is the host's
  \<open>new Date(text)\<close>, \<open>now\<close> the time value of \<open>new Date()\<close>.
\<close>

definition dateAfter :: "int option \<Rightarrow> int option \<Rightarrow> bool" where
  "dateAfter a b = (case (a, b) of (Some x, Some y) \<Rightarrow> x > y | _ \<Rightarrow> False)"

definition validateDateOfBirth :: "(string \<Rightarrow> int option) \<Rightarrow> int \<Rightarrow> string \<Rightarrow> unit res" where
  "validateDateOfBirth parseDate now input =
     (if \<not> dateRegex input then Inl ''Please enter date in YYYY-MM-DD format''
      else (let date = parseDate input; today = Some now
            in if dateAfter date today then Inl ''Date of birth cannot be in the future''
               else if dateAfter (parseDate ''1900-01-01'') date
               then Inl ''Please enter a valid date of birth''
               else Inr ()))"

text \<open>
  The answers the prompts let through: every validator answers \<open>true\<close>. The entries of
  \<open>answers\<close> are the ten texts typed, \<open>additionalNotes\<close> with its default \<open>""\<close>.
\<close>

definition promptsAccept :: "(string \<Rightarrow> int option) \<Rightarrow> int \<Rightarrow> User \<Rightarrow> bool" where
  "promptsAccept parseDate now a =
     (required ''First name is required'' (firstName a) = Inr () \<and>
      required ''Last name is required'' (lastName a) = Inr () \<and>
      validateEmail (email a) = Inr () \<and>
      required ''Address is required'' (address a) = Inr () \<and>
      required ''City is required'' (city a) = Inr () \<and>
      validateState (state a) = Inr () \<and>
      validateZip (zip_code a) = Inr () \<and>
      validatePhone (phone a) = Inr () \<and>
      validateDateOfBirth parseDate now (dateOfBirth a) = Inr ())"

text \<open>The object \<open>inquirer.prompt\<close> resolves to: the state passed through its filter.\<close>

definition answersObject :: "User \<Rightarrow> json" where
  "answersObject a =
     JObj [(''firstName'', JStr (firstName a)), (''lastName'', JStr (lastName a)),
           (''email'', JStr (email a)), (''address'', JStr (address a)),
           (''city'', JStr (city a)), (''state'', JStr (toUpperCase (state a))),
           (''zip'', JStr (zip_code a)), (''phone'', JStr (phone a)),
           (''dateOfBirth'', JStr (dateOfBirth a)),
           (''additionalNotes'', JStr (case additionalNotes a of None \<Rightarrow> [] | Some t \<Rightarrow> t))]"

text \<open>\<open>collectUserInfo\<close> on answers the prompts let through; \<open>None\<close> is \<open>process.exit(1)\<close>.\<close>

definition collectUserInfo :: "(string \<Rightarrow> bool) \<Rightarrow> User \<Rightarrow> User option" where
  "collectUserInfo isEmail a = UserSchema_parse isEmail (answersObject a)"

section \<open>Predicates of the properties\<close>

text \<open>A line in which the keyword parse finds a label: one of the loop's conditions holds.\<close>

definition labeled :: "string \<Rightarrow> bool" where
  "labeled line =
     (let low = toLowerCase line
      in js_includes low ''problem:'' \<or> js_includes low ''issue:''
       \<or> js_includes low ''fix:'' \<or> js_includes low ''solution:''
       \<or> js_includes low ''steps:'' \<or> js_includes low ''next:''
       \<or> js_includes low ''confidence:'')"

definition noLabeledLine :: "string \<Rightarrow> bool" where
  "noLabeledLine response = list_all (\<lambda>line. \<not> labeled line) (js_split CHR 0x0A response)"

text \<open>A confidence in the interval from \<open>lo\<close> to \<open>hi\<close>; \<open>NaN\<close> is in no interval.\<close>

definition inRange :: "int \<Rightarrow> int \<Rightarrow> jsnum \<Rightarrow> bool" where
  "inRange lo hi c = (case c of NaN \<Rightarrow> False | Num n \<Rightarrow> lo \<le> n \<and> n \<le> hi)"

text \<open>The calls of the fill, consent, submit and verify phases.\<close>

definition laterPhase :: "site \<Rightarrow> bool" where
  "laterPhase s =
     (s = AtFillRemovalForm \<or> s = AtHandleCheckboxesAndTerms \<or> s = AtSubmitRemovalForm
      \<or> s = AtVerifySubmission)"

definition snapshotsTaken :: "(site \<times> call) list \<Rightarrow> nat" where
  "snapshotsTaken cs = length (filter (\<lambda>sc. snd sc = Screenshot) cs)"

section \<open>Sample inputs\<close>

text \<open>
  A scripted page for the examples: its hidden state counts the calls made; every
  operation succeeds; it asks for a search first, finds no listing, sees no error text
  and reads a confirmation.
\<close>

definition sample_page :: "nat Page" where
  "sample_page =
     \<lparr>goto = (\<lambda>u n. (Inr (), Suc n)),
      waitForLoadState = (\<lambda>n. (Inr (), Suc n)),
      waitForTimeout = (\<lambda>ms n. (Inr (), Suc n)),
      act = (\<lambda>a n. (Inr (), Suc n)),
      extractSearchCheck = (\<lambda>n. (Inr \<lparr>hasSearchForm = True, hasRemovalForm = False,
                                       pageType = ''search'', needsSearchFirst = True\<rparr>, Suc n)),
      extractListingCheck = (\<lambda>u n. (Inr \<lparr>foundListing = False, listingText = '''',
                                          clickedListing = False\<rparr>, Suc n)),
      extractFallbackCheck = (\<lambda>n. (Inr \<lparr>foundPossibleListing = True,
                                         clickedPossibleListing = False\<rparr>, Suc n)),
      extractFieldCheck = (\<lambda>n. (Inr \<lparr>allFieldsFilled = True, missingFields = [],
                                      filledFields = [''First Name'']\<rparr>, Suc n)),
      extractCheckboxCheck = (\<lambda>n. (Inr \<lparr>foundCheckboxes = False, checkedCheckboxes = False,
                                         checkboxCount = 0, checkboxTypes = []\<rparr>, Suc n)),
      extractRadioCheck = (\<lambda>n. (Inr \<lparr>foundRadioButtons = False, selectedRadioButtons = False,
                                      radioButtonCount = 0\<rparr>, Suc n)),
      extractReadyCheck = (\<lambda>n. (Inr \<lparr>formReady = True, missingRequired = [],
                                      uncheckedCheckboxes = [], submitButtonText = ''Submit''\<rparr>, Suc n)),
      extractRecheck = (\<lambda>n. (Inr \<lparr>formReadyNow = True, stillMissing = []\<rparr>, Suc n)),
      extractErrorCheck = (\<lambda>n. (Inr \<lparr>foundErrorIndicators = False, errorMessages = [],
                                      hasMissingFields = False, hasUncheckedCheckboxes = False\<rparr>, Suc n)),
      extractSuccessCheck = (\<lambda>n. (Inr \<lparr>foundSuccessText = True,
                                        successText = ''Thank you, your request has been submitted'',
                                        pageTitle = ''Done'', mainContent = ''Thank you''\<rparr>, Suc n)),
      extractFormCheck = (\<lambda>n. (Inr \<lparr>stillOnForm = True, hasSubmitButton = True,
                                     hasFormFields = True, formPageType = ''form''\<rparr>, Suc n)),
      takeScreenshot = (\<lambda>n. (Inr ''PNG'', Suc n))\<rparr>"

definition sample_broker :: Broker where
  "sample_broker =
     \<lparr>name = ''Spokeo'', url = ''https://www.spokeo.com'',
      opt_out_url = ''https://www.spokeo.com/optout'', requires_id_upload = False,
      broker_notes = ''Standard opt-out process''\<rparr>"

definition sample_user :: User where
  "sample_user =
     \<lparr>firstName = ''Jane'', lastName = ''Doe'', email = ''jane@example.com'',
      address = ''1 Main St'', city = ''Springfield'', state = ''IL'', zip_code = ''62701'',
      phone = ''2175550100'', dateOfBirth = ''1980-02-03'', additionalNotes = None\<rparr>"

text \<open>A codec that knows one catalog text, and a host around it.\<close>

definition sample_codec :: Codec where
  "sample_codec =
     \<lparr>JSON_parse = (\<lambda>t. if t = ''[Spokeo]'' then Inr (JArr [broker_json sample_broker])
                          else Inl ''SyntaxError''),
      JSON_stringify = (\<lambda>j. if j = JArr [broker_json sample_broker] then ''[Spokeo]'' else ''[...]'')\<rparr>"

definition sample_host :: "nat Host" where
  "sample_host =
     \<lparr>completion = (\<lambda>nm u e img n. (Inr (Some ''Confidence: high''), Suc n)),
      clock = (\<lambda>n. 1700000000000 + int n),
      codec = sample_codec,
      stringifySession = (\<lambda>s. ''results: '' @ showNat (length (results s)))\<rparr>"

definition sample_fs :: FS where
  "sample_fs = \<lparr>files = [''brokers.json'' \<mapsto> ''[Spokeo]''], dirs = {}, denied = (\<lambda>p. False)\<rparr>"

definition sample_world :: "nat World" where
  "sample_world = \<lparr>remote = 0, fs = sample_fs, calls = []\<rparr>"

text \<open>The same world in a working directory where no directory can be created.\<close>

definition locked_world :: "nat World" where
  "locked_world = sample_world\<lparr>fs := sample_fs\<lparr>denied := (\<lambda>p. p = ''screenshots'')\<rparr>\<rparr>"

definition sample_session :: RemovalSession where
  "sample_session = \<lparr>user = sample_user, results = [], startTime = 1700000000000, endTime = None\<rparr>"

text \<open>A stored profile whose name, ZIP, phone, state and date of birth are empty.\<close>

definition blank_profile :: json where
  "blank_profile =
     JObj [(''firstName'', JStr ''''), (''lastName'', JStr ''Doe''),
           (''email'', JStr ''jane@example.com''), (''address'', JStr ''1 Main St''),
           (''city'', JStr ''Springfield''), (''state'', JStr ''''), (''zip'', JStr ''''),
           (''phone'', JStr ''''), (''dateOfBirth'', JStr '''')]"

text \<open>The members \<open>UserSchema\<close> requires.\<close>

definition requiredKeys :: "string list" where
  "requiredKeys = [''firstName'', ''lastName'', ''email'', ''address'', ''city'', ''state'',
                   ''zip'', ''phone'', ''dateOfBirth'']"

text \<open>A date parser that knows three dates, with their time values.\<close>

definition sample_parseDate :: "string \<Rightarrow> int option" where
  "sample_parseDate t =
     (if t = ''1980-02-03'' then Some 318384000000
      else if t = ''1900-01-01'' then Some (- 2208988800000)
      else if t = ''2999-01-01'' then Some 32472144000000
      else None)"

text \<open>
  A computation that, from every world, adds \<open>n x\<close> snapshots when it returns \<open>x\<close> and
  none when it throws.
\<close>

definition snapsBy :: "('a \<Rightarrow> nat) \<Rightarrow> ('p, 'a) io \<Rightarrow> bool" where
  "snapsBy n m =
     (\<forall>w. snapshotsTaken (calls (snd (m w)))
            = snapshotsTaken (calls w) + (case fst (m w) of Inl e \<Rightarrow> 0 | Inr x \<Rightarrow> n x))"

text \<open>A computation whose every returned value satisfies \<open>P\<close>.\<close>

definition yields :: "('a \<Rightarrow> bool) \<Rightarrow> ('p, 'a) io \<Rightarrow> bool" where
  "yields P m = (\<forall>w. case fst (m w) of Inl e \<Rightarrow> True | Inr x \<Rightarrow> P x)"

text \<open>
  A run in which every attempt returns a result and every write of the session file
  succeeds.
\<close>

fun smooth ::
  "'p Host \<Rightarrow> 'p Page option \<Rightarrow> User \<Rightarrow> Broker list \<Rightarrow> RemovalSession \<times> 'p World \<Rightarrow> bool" where
  "smooth host engine u [] sw = True"
| "smooth host engine u (b # bs) sw =
     (case removeFromBroker host engine b u (snd sw) of
        (Inl e, w1) \<Rightarrow> False
      | (Inr result, w1) \<Rightarrow>
          (case writeFileSync (fs w1) ''removal-session.json''
                  (stringifySession host ((fst sw)\<lparr>results := results (fst sw) @ [result]\<rparr>)) of
             Inl e \<Rightarrow> False
           | Inr fs' \<Rightarrow> smooth host engine u bs (processBroker host engine u sw b)))"


section \<open>The analyzer's parse\<close>

lemma parseLine_unlabeled: "\<not> labeled line \<Longrightarrow> parseLine st line = st"
  by (simp add: labeled_def parseLine_def Let_def)

lemma foldl_parseLine_unlabeled:
  "list_all (\<lambda>line. \<not> labeled line) ls \<Longrightarrow> foldl parseLine st ls = st"
  by (induction ls arbitrary: st) (simp_all add: parseLine_unlabeled)

lemma scanLines_unlabeled: "noLabeledLine response \<Longrightarrow> scanLines response = parsed0"
  by (simp add: noLabeledLine_def scanLines_def foldl_parseLine_unlabeled)

text \<open>
  Claim C6, as the specification states it: a completion in which no line carries a
  label parses to the placeholder with confidence 0. The code answers confidence 5 and
  the head of the completion as the problem: the completion \<open>hello\<close> has no labeled line,
  and its diagnosis has confidence 5, not 0, and the problem text \<open>hello...\<close>.
\<close>

theorem C6_unlabeled_confidence_is_not_zero:
  "noLabeledLine ''hello''
   \<and> confidence (parseAnalysisResponse (Some ''hello'')) = Num 5
   \<and> confidence (parseAnalysisResponse (Some ''hello'')) \<noteq> Num 0
   \<and> problem (parseAnalysisResponse (Some ''hello'')) = ''hello...''"
  by code_simp

text \<open>
  Claim C6, amended: for every completion text in which no line carries a label, the
  diagnosis has the first 200 characters of the text followed by \<open>...\<close> as its problem,
  \<open>Manual review required\<close> as its fix and as its special instructions, no next steps,
  and confidence 5.
\<close>

theorem C6_unlabeled_defaults:
  "noLabeledLine response \<Longrightarrow>
   parseAnalysisResponse (Some response) =
     \<lparr>problem = take 200 response @ ''...'', suggestedFix = ''Manual review required'',
      nextSteps = [], specialInstructions = ''Manual review required'', confidence = Num 5\<rparr>"
  by (simp add: parseAnalysisResponse_def scanLines_unlabeled parsed0_def Let_def)

theorem C6_unlabeled_defaults_witness:
  "noLabeledLine ''Please retry later''
   \<and> parseAnalysisResponse (Some ''Please retry later'') =
       \<lparr>problem = ''Please retry later...'', suggestedFix = ''Manual review required'',
        nextSteps = [], specialInstructions = ''Manual review required'', confidence = Num 5\<rparr>"
proof -
  have h: "noLabeledLine ''Please retry later''" by code_simp
  show ?thesis using h C6_unlabeled_defaults [OF h] by simp
qed

text \<open>
  Claim C9: on the path of \<open>parseAnalysisResponse\<close> that does not throw, the special
  instructions of the diagnosis are its suggested fix, and that fix is the text the
  loop parsed or, when it parsed none, the placeholder \<open>Manual review required\<close>.
\<close>

theorem C9_specialInstructions_is_suggestedFix:
  "specialInstructions (parseAnalysisResponse (Some response))
     = suggestedFix (parseAnalysisResponse (Some response))
   \<and> suggestedFix (parseAnalysisResponse (Some response))
     = orElse (p_suggestedFix (scanLines response)) ''Manual review required''"
  by (simp add: parseAnalysisResponse_def Let_def orElse_def)

theorem C9_specialInstructions_is_suggestedFix_witness:
  "specialInstructions (parseAnalysisResponse (Some ''Fix: Click the I agree checkbox''))
     = ''Click the I agree checkbox''"
proof -
  have e: "suggestedFix (parseAnalysisResponse (Some ''Fix: Click the I agree checkbox''))
             = ''Click the I agree checkbox''"
    by code_simp
  show ?thesis
    using C9_specialInstructions_is_suggestedFix [of "''Fix: Click the I agree checkbox''"] e
    by simp
qed

subsection \<open>The range of the confidence\<close>

lemma clamp_cases:
  "Math_max (Num 1) (Math_min (Num 10) c) = NaN \<or> inRange 1 10 (Math_max (Num 1) (Math_min (Num 10) c))"
  by (cases c) (simp_all add: inRange_def)

lemma parseLine_confidence:
  "p_confidence st = NaN \<or> inRange 1 10 (p_confidence st) \<Longrightarrow>
   p_confidence (parseLine st line) = NaN \<or> inRange 1 10 (p_confidence (parseLine st line))"
  using clamp_cases [of "parseInt (confidenceText line)"]
  by (auto simp: parseLine_def Let_def)

lemma foldl_parseLine_confidence:
  "p_confidence st = NaN \<or> inRange 1 10 (p_confidence st) \<Longrightarrow>
   p_confidence (foldl parseLine st ls) = NaN \<or> inRange 1 10 (p_confidence (foldl parseLine st ls))"
proof (induction ls arbitrary: st)
  case Nil
  then show ?case by simp
next
  case (Cons l ls)
  have "p_confidence (parseLine st l) = NaN \<or> inRange 1 10 (p_confidence (parseLine st l))"
    using Cons.prems by (rule parseLine_confidence)
  then show ?case using Cons.IH by simp
qed

text \<open>What the code does guarantee: a confidence outside \<open>[0,10]\<close> can only be \<open>NaN\<close>.\<close>

lemma confidence_NaN_or_in_range:
  "confidence (parseAnalysisResponse content) = NaN
   \<or> inRange 0 10 (confidence (parseAnalysisResponse content))"
proof (cases content)
  case None
  then show ?thesis by (simp add: parseAnalysisResponse_def inRange_def)
next
  case (Some response)
  have "p_confidence parsed0 = NaN \<or> inRange 1 10 (p_confidence parsed0)"
    by (simp add: parsed0_def inRange_def)
  then have "p_confidence (scanLines response) = NaN \<or> inRange 1 10 (p_confidence (scanLines response))"
    unfolding scanLines_def by (rule foldl_parseLine_confidence)
  then show ?thesis
    using Some by (auto simp: parseAnalysisResponse_def Let_def inRange_def split: jsnum.splits)
qed

lemma analysisFailed_confidence: "confidence analysisFailed = Num 0"
  by (simp add: analysisFailed_def)

text \<open>
  Claim C5 at a failing input. The claim: the confidence of every diagnosis lies in
  \<open>[0,10]\<close>, a parsed one in \<open>[1,10]\<close>. For the completion \<open>Confidence: high\<close> the
  labeled line is found, \<open>parseInt\<close> of \<open>high\<close> is \<open>NaN\<close>, and \<open>Math.max(1, Math.min(10, NaN))\<close>
  is \<open>NaN\<close>: the confidence is in no interval.
\<close>

theorem C5_confidence_can_be_NaN:
  "confidence (parseAnalysisResponse (Some ''Confidence: high'')) = NaN
   \<and> \<not> inRange 0 10 (confidence (parseAnalysisResponse (Some ''Confidence: high'')))"
  by code_simp

section \<open>Folding a diagnosis into the catalog\<close>

lemma annotation_nonempty: "annotation a \<noteq> []"
  by (simp add: annotation_def)







text \<open>The lookup answers \<open>-1\<close> exactly when every entry compares unequal by name.\<close>

lemma findIndex_None_iff:
  "(findIndex nm bs i = Inr None) = list_all (\<lambda>b. nameMatches nm b = Inr False) bs"
proof (induction bs arbitrary: i)
  case Nil
  then show ?case by simp
next
  case (Cons b bs)
  then show ?case by (cases "nameMatches nm b") (auto split: bool.splits)
qed

lemma nameMatches_broker_json: "nameMatches nm (broker_json b) = Inr (name b = nm)"
  by (auto simp: nameMatches_def broker_json_def)

text \<open>For a catalog of validated brokers: no broker of that name.\<close>

lemma findIndex_catalog_None_iff:
  "(findIndex nm (map broker_json bs) 0 = Inr None) = (nm \<notin> name ` set bs)"
  by (auto simp: findIndex_None_iff list_all_iff nameMatches_broker_json)

text \<open>
  Claim C10: when the stored catalog is read and parsed and the lookup by name finds no
  entry, persisting the updated broker returns the file system as it was: the catalog
  file keeps its bytes, and nothing else is written.
\<close>

theorem C10_unknown_name_leaves_catalog:
  assumes "readFileSync f ''brokers.json'' = Inr brokersData"
    and "JSON_parse js brokersData = Inr (JArr brokers)"
    and "findIndex (name updatedBroker) brokers 0 = Inr None"
  shows "saveUpdatedBroker js updatedBroker f = f
         \<and> files (saveUpdatedBroker js updatedBroker f) ''brokers.json'' = Some brokersData"
  using assms
  by (auto simp: saveUpdatedBroker_def readFileSync_def split: if_splits option.splits)

theorem C10_unknown_name_leaves_catalog_witness:
  "readFileSync sample_fs ''brokers.json'' = Inr ''[Spokeo]''
   \<and> JSON_parse sample_codec ''[Spokeo]'' = Inr (JArr [broker_json sample_broker])
   \<and> findIndex ''Radaris'' [broker_json sample_broker] 0 = Inr None
   \<and> saveUpdatedBroker sample_codec (sample_broker\<lparr>name := ''Radaris''\<rparr>) sample_fs = sample_fs
   \<and> files (saveUpdatedBroker sample_codec (sample_broker\<lparr>name := ''Radaris''\<rparr>) sample_fs)
        ''brokers.json'' = Some ''[Spokeo]''"
proof -
  have h1: "readFileSync sample_fs ''brokers.json'' = Inr ''[Spokeo]''"
    by (simp add: readFileSync_def sample_fs_def)
  have h2: "JSON_parse sample_codec ''[Spokeo]'' = Inr (JArr [broker_json sample_broker])"
    by (simp add: sample_codec_def)
  have h3: "findIndex (name (sample_broker\<lparr>name := ''Radaris''\<rparr>)) [broker_json sample_broker] 0
              = Inr None"
    by (simp add: broker_json_def sample_broker_def nameMatches_def)
  have h3': "findIndex ''Radaris'' [broker_json sample_broker] 0 = Inr None"
    using h3 by simp
  have c: "saveUpdatedBroker sample_codec (sample_broker\<lparr>name := ''Radaris''\<rparr>) sample_fs = sample_fs
           \<and> files (saveUpdatedBroker sample_codec (sample_broker\<lparr>name := ''Radaris''\<rparr>) sample_fs)
                ''brokers.json'' = Some ''[Spokeo]''"
    by (rule C10_unknown_name_leaves_catalog [OF h1 h2 h3])
  show ?thesis
    using h1 h2 h3' c by blast
qed

section \<open>Verification of a submission\<close>

text \<open>
  Claim C1: whatever the three probes answer, \<open>verifySubmission\<close> classifies in strict
  priority. With the error probe answering \<open>errorCheck\<close>, the success probe
  \<open>successCheck\<close> and the form probe \<open>formCheck\<close>: found error indicators give Failure
  with \<open>Form errors detected: \<close> and the error texts joined by a comma and a space;
  otherwise a found success text gives Success with \<open>Success confirmed: \<close> and the text;
  otherwise a page still on the form, with a submit button or with form fields gives
  Failure with the \<open>Still on form page\<close> message; otherwise Failure with
  \<open>Unable to verify success - no clear success indicators found\<close>.
\<close>

theorem C1_verify_priority:
  assumes "waitForTimeout page 2000 (remote w) = (Inr (), p1)"
    and "extractErrorCheck page p1 = (Inr errorCheck, p2)"
    and "extractSuccessCheck page p2 = (Inr successCheck, p3)"
    and "extractFormCheck page p3 = (Inr formCheck, p4)"
  shows "fst (verifySubmission page w) = Inr
     (if foundErrorIndicators errorCheck
      then \<lparr>v_success = False,
            v_message = ''Form errors detected: '' @ js_join '', '' (errorMessages errorCheck)\<rparr>
      else if foundSuccessText successCheck
      then \<lparr>v_success = True, v_message = ''Success confirmed: '' @ successText successCheck\<rparr>
      else if stillOnForm formCheck \<or> hasSubmitButton formCheck \<or> hasFormFields formCheck
      then \<lparr>v_success = False,
            v_message = ''Still on form page - submission failed. Page type: '' @ formPageType formCheck\<rparr>
      else \<lparr>v_success = False,
            v_message = ''Unable to verify success - no clear success indicators found''\<rparr>)"
  using assms by (simp add: verifySubmission_def andThen_def perform_def ret_def)

text \<open>The sample page reads no error and a confirmation while the form is still shown.\<close>

theorem C1_verify_priority_witness:
  "fst (verifySubmission sample_page sample_world)
     = Inr \<lparr>v_success = True,
            v_message = ''Success confirmed: Thank you, your request has been submitted''\<rparr>"
proof -
  have h1: "waitForTimeout sample_page 2000 (remote sample_world) = (Inr (), 1)"
    by (simp add: sample_page_def sample_world_def)
  have h2: "extractErrorCheck sample_page 1
              = (Inr \<lparr>foundErrorIndicators = False, errorMessages = [],
                      hasMissingFields = False, hasUncheckedCheckboxes = False\<rparr>, 2)"
    by (simp add: sample_page_def)
  have h3: "extractSuccessCheck sample_page 2
              = (Inr \<lparr>foundSuccessText = True,
                      successText = ''Thank you, your request has been submitted'',
                      pageTitle = ''Done'', mainContent = ''Thank you''\<rparr>, 3)"
    by (simp add: sample_page_def)
  have h4: "extractFormCheck sample_page 3
              = (Inr \<lparr>stillOnForm = True, hasSubmitButton = True,
                      hasFormFields = True, formPageType = ''form''\<rparr>, 4)"
    by (simp add: sample_page_def)
  show ?thesis using C1_verify_priority [OF h1 h2 h3 h4] by simp
qed

section \<open>One broker: the listing that is not found\<close>

text \<open>
  Claim C2: an attempt that enters the search phase (the page loads, the structural
  probe asks for a search first or the broker is on the search-first list, the search is
  issued) and whose listing probe and relaxed retry probe both answer without a listing
  found and clicked ends with \<open>success = False\<close> and the error
  \<open>Could not find user listing\<close>. The calls it issued are the seven of navigation,
  search and listing, none from the fill, consent, submit or verify phase.
\<close>

theorem C2_listing_not_found:
  assumes "ensureScreenshotsDir (fs w) = Inr fs1"
    and "goto page (opt_out_url b) (remote w) = (Inr (), p1)"
    and "waitForLoadState page p1 = (Inr (), p2)"
    and "extractSearchCheck page p2 = (Inr searchCheck, p3)"
    and "needsSearchFirst searchCheck \<or> name b \<in> set searchFirstBrokers"
    and "act page (SearchFor u) p3 = (Inr (), p4)"
    and "waitForLoadState page p4 = (Inr (), p5)"
    and "extractListingCheck page u p5 = (Inr listingCheck, p6)"
    and "\<not> (foundListing listingCheck \<and> clickedListing listingCheck)"
    and "extractFallbackCheck page p6 = (Inr fallbackCheck, p7)"
    and "\<not> (foundPossibleListing fallbackCheck \<and> clickedPossibleListing fallbackCheck)"
  shows "removeFromBroker host (Some page) b u w =
           (Inr \<lparr>broker = b, success = False, error = Some ''Could not find user listing'',
                 timestamp = clock host (remote w), details = None, screenshot = None,
                 aiAnalysis = None\<rparr>,
            w\<lparr>remote := p7, fs := fs1,
              calls := calls w @
                [(AtRemoveFromBroker, Goto (opt_out_url b)),
                 (AtRemoveFromBroker, WaitForLoadState),
                 (AtCheckIfNeedsSearch, Extract SearchProbe),
                 (AtPerformSearch, Act (SearchFor u)),
                 (AtRemoveFromBroker, WaitForLoadState),
                 (AtFindAndClickListing, Extract ListingProbe),
                 (AtFindAndClickListing, Extract FallbackProbe)]\<rparr>)
         \<and> list_all (\<lambda>sc. \<not> laterPhase (fst sc))
              (drop (length (calls w))
                 (calls (snd (removeFromBroker host (Some page) b u w))))"
proof -
  have run: "removeFromBroker host (Some page) b u w =
           (Inr \<lparr>broker = b, success = False, error = Some ''Could not find user listing'',
                 timestamp = clock host (remote w), details = None, screenshot = None,
                 aiAnalysis = None\<rparr>,
            w\<lparr>remote := p7, fs := fs1,
              calls := calls w @
                [(AtRemoveFromBroker, Goto (opt_out_url b)),
                 (AtRemoveFromBroker, WaitForLoadState),
                 (AtCheckIfNeedsSearch, Extract SearchProbe),
                 (AtPerformSearch, Act (SearchFor u)),
                 (AtRemoveFromBroker, WaitForLoadState),
                 (AtFindAndClickListing, Extract ListingProbe),
                 (AtFindAndClickListing, Extract FallbackProbe)]\<rparr>)"
    using assms
    by (auto simp: removeFromBroker_def attempt_def checkIfNeedsSearch_def performSearch_def
        findAndClickListing_def andThen_def perform_def ret_def Let_def)
  show ?thesis unfolding run by (simp add: laterPhase_def)
qed

text \<open>
  On the sample page a broker outside the search-first list is searched because the
  structural probe asks for it; the retry probe finds a candidate and does not click it.
\<close>

theorem C2_listing_not_found_witness:
  "fst (removeFromBroker sample_host (Some sample_page) (sample_broker\<lparr>name := ''Acme''\<rparr>)
          sample_user sample_world)
     = Inr \<lparr>broker = sample_broker\<lparr>name := ''Acme''\<rparr>, success = False,
            error = Some ''Could not find user listing'', timestamp = 1700000000000,
            details = None, screenshot = None, aiAnalysis = None\<rparr>
   \<and> list_all (\<lambda>sc. \<not> laterPhase (fst sc))
        (calls (snd (removeFromBroker sample_host (Some sample_page)
           (sample_broker\<lparr>name := ''Acme''\<rparr>) sample_user sample_world)))"
proof -
  let ?b = "sample_broker\<lparr>name := ''Acme''\<rparr>"
  have h0: "ensureScreenshotsDir (fs sample_world) = Inr (sample_fs\<lparr>dirs := {''screenshots''}\<rparr>)"
    by (simp add: ensureScreenshotsDir_def existsSync_def mkdirSync_def sample_world_def sample_fs_def)
  have h1: "goto sample_page (opt_out_url ?b) (remote sample_world) = (Inr (), 1)"
    by (simp add: sample_page_def sample_world_def)
  have h2: "waitForLoadState sample_page 1 = (Inr (), 2)"
    by (simp add: sample_page_def)
  have h3: "extractSearchCheck sample_page 2
              = (Inr \<lparr>hasSearchForm = True, hasRemovalForm = False, pageType = ''search'',
                      needsSearchFirst = True\<rparr>, 3)"
    by (simp add: sample_page_def)
  have h4: "needsSearchFirst \<lparr>hasSearchForm = True, hasRemovalForm = False, pageType = ''search'',
                               needsSearchFirst = True\<rparr> \<or> name ?b \<in> set searchFirstBrokers"
    by simp
  have h5: "act sample_page (SearchFor sample_user) 3 = (Inr (), 4)"
    by (simp add: sample_page_def)
  have h6: "waitForLoadState sample_page 4 = (Inr (), 5)"
    by (simp add: sample_page_def)
  have h7: "extractListingCheck sample_page sample_user 5
              = (Inr \<lparr>foundListing = False, listingText = [], clickedListing = False\<rparr>, 6)"
    by (simp add: sample_page_def)
  have h8: "\<not> (foundListing \<lparr>foundListing = False, listingText = [], clickedListing = False\<rparr>
               \<and> clickedListing \<lparr>foundListing = False, listingText = [], clickedListing = False\<rparr>)"
    by simp
  have h9: "extractFallbackCheck sample_page 6
              = (Inr \<lparr>foundPossibleListing = True, clickedPossibleListing = False\<rparr>, 7)"
    by (simp add: sample_page_def)
  have h10: "\<not> (foundPossibleListing \<lparr>foundPossibleListing = True, clickedPossibleListing = False\<rparr>
                \<and> clickedPossibleListing \<lparr>foundPossibleListing = True, clickedPossibleListing = False\<rparr>)"
    by simp
  have c: "removeFromBroker sample_host (Some sample_page) ?b sample_user sample_world =
           (Inr \<lparr>broker = ?b, success = False, error = Some ''Could not find user listing'',
                 timestamp = clock sample_host (remote sample_world), details = None,
                 screenshot = None, aiAnalysis = None\<rparr>,
            sample_world\<lparr>remote := 7, fs := sample_fs\<lparr>dirs := {''screenshots''}\<rparr>,
              calls := calls sample_world @
                [(AtRemoveFromBroker, Goto (opt_out_url ?b)),
                 (AtRemoveFromBroker, WaitForLoadState),
                 (AtCheckIfNeedsSearch, Extract SearchProbe),
                 (AtPerformSearch, Act (SearchFor sample_user)),
                 (AtRemoveFromBroker, WaitForLoadState),
                 (AtFindAndClickListing, Extract ListingProbe),
                 (AtFindAndClickListing, Extract FallbackProbe)]\<rparr>)"
    using C2_listing_not_found [OF h0 h1 h2 h3 h4 h5 h6 h7 h8 h9 h10, of sample_host] by blast
  show ?thesis
    unfolding c by (simp add: laterPhase_def sample_host_def sample_world_def)
qed

section \<open>One broker: the evidence snapshot\<close>

lemma saveScreenshot_calls:
  "calls (snd (saveScreenshot page path w)) = calls w @ [(AtRemoveFromBroker, Screenshot)]"
  by (simp add: saveScreenshot_def perform_def split: prod.splits sum.splits)

lemma saveScreenshot_snapshots:
  "snapshotsTaken (calls (snd (saveScreenshot page path w))) = Suc (snapshotsTaken (calls w))"
  by (simp add: saveScreenshot_calls snapshotsTaken_def)

lemma analyzeFailureScreenshot_snapshots:
  "snapshotsTaken (calls (snd (analyzeFailureScreenshot host path b err w))) = snapshotsTaken (calls w)"
  by (simp add: analyzeFailureScreenshot_def perform_def snapshotsTaken_def
      split: prod.splits sum.splits)

lemma conclude_snapshot_once:
  "snapshotsTaken (calls (snd (conclude host page b result verification w)))
     = Suc (snapshotsTaken (calls w))"
  by (simp add: conclude_def Let_def split_beta analyzeFailureScreenshot_snapshots
      saveScreenshot_snapshots)

lemma onError_snapshot_once:
  "snapshotsTaken (calls (snd (onError page b result e w))) = Suc (snapshotsTaken (calls w))"
  by (simp add: onError_def split_beta saveScreenshot_snapshots)

text \<open>
  The verdict does not depend on how the capture goes: whatever \<open>page.screenshot\<close> and
  the write answer, the success flag, the details and the error are the same.
\<close>

lemma conclude_verdict:
  "\<exists>r. fst (conclude host page b result verification w) = Inr r
       \<and> success r = v_success verification
       \<and> details r = Some (v_message verification)
       \<and> error r = error result
       \<and> screenshot r \<noteq> None"
  by (simp add: conclude_def Let_def split_beta)

lemma onError_verdict:
  "\<exists>r. fst (onError page b result e w) = Inr r
       \<and> success r = success result \<and> error r = Some e \<and> details r = details result
       \<and> screenshot r \<noteq> None"
  by (simp add: onError_def split_beta)

lemma yields_ret: "P x \<Longrightarrow> yields P (ret x)"
  by (simp add: yields_def ret_def)

lemma yields_andThen:
  assumes "\<And>x. yields P (f x)"
  shows "yields P (andThen m f)"
  unfolding yields_def
proof
  fix w
  obtain r w1 where mw: "m w = (r, w1)" by (cases "m w")
  show "case fst (andThen m f w) of Inl e \<Rightarrow> True | Inr x \<Rightarrow> P x"
  proof (cases r)
    case (Inl e)
    then show ?thesis using mw by (simp add: andThen_def)
  next
    case (Inr x)
    have "case fst (f x w1) of Inl e \<Rightarrow> True | Inr y \<Rightarrow> P y"
      using assms [of x] by (simp add: yields_def)
    then show ?thesis using Inr mw by (simp add: andThen_def)
  qed
qed

lemma yields_if: "yields P a \<Longrightarrow> yields P b \<Longrightarrow> yields P (if c then a else b)"
  by simp

lemma yields_conclude:
  "yields (\<lambda>r. screenshot r \<noteq> None) (conclude host page b result verification)"
  unfolding yields_def
proof
  fix w
  show "case fst (conclude host page b result verification w) of
          Inl e \<Rightarrow> True | Inr x \<Rightarrow> screenshot x \<noteq> None"
    using conclude_verdict [of host page b result verification w] by auto
qed

lemma yields_weaken: "yields P m \<Longrightarrow> (\<And>x. P x \<Longrightarrow> Q x) \<Longrightarrow> yields Q m"
  by (auto simp: yields_def split: sum.splits)

lemma yields_attempt:
  "yields (\<lambda>r. screenshot r \<noteq> None \<or> r = result\<lparr>error := Some ''Could not find user listing''\<rparr>)
     (attempt host page b u result)"
  unfolding attempt_def
  by (intro yields_andThen yields_if yields_ret yields_weaken [OF yields_conclude]) simp_all

lemma snapsBy_ret: "n x = 0 \<Longrightarrow> snapsBy n (ret x)"
  by (simp add: snapsBy_def ret_def)

lemma snapsBy_perform: "c \<noteq> Screenshot \<Longrightarrow> snapsBy (\<lambda>_. 0) (perform s c f)"
  by (simp add: snapsBy_def perform_def snapshotsTaken_def split_beta split: sum.splits)

lemma snapsBy_andThen:
  assumes "snapsBy (\<lambda>_. 0) m" and "\<And>x. snapsBy n (f x)"
  shows "snapsBy n (andThen m f)"
  unfolding snapsBy_def
proof
  fix w
  obtain r w1 where mw: "m w = (r, w1)" by (cases "m w")
  have s1: "snapshotsTaken (calls w1) = snapshotsTaken (calls w)"
    using assms(1) mw by (auto simp: snapsBy_def split: sum.splits dest: spec [of _ w])
  show "snapshotsTaken (calls (snd (andThen m f w)))
          = snapshotsTaken (calls w) + (case fst (andThen m f w) of Inl e \<Rightarrow> 0 | Inr x \<Rightarrow> n x)"
  proof (cases r)
    case (Inl e)
    then show ?thesis using mw s1 by (simp add: andThen_def)
  next
    case (Inr x)
    have "snapshotsTaken (calls (snd (f x w1)))
            = snapshotsTaken (calls w1) + (case fst (f x w1) of Inl e \<Rightarrow> 0 | Inr y \<Rightarrow> n y)"
      using assms(2) [of x] by (simp add: snapsBy_def)
    then show ?thesis using Inr mw s1 by (simp add: andThen_def)
  qed
qed

lemma snapsBy_if: "snapsBy n a \<Longrightarrow> snapsBy n b \<Longrightarrow> snapsBy n (if c then a else b)"
  by simp

lemmas quiet_rules = snapsBy_andThen snapsBy_perform snapsBy_ret snapsBy_if

lemma quiet_checkIfNeedsSearch: "snapsBy (\<lambda>_. 0) (checkIfNeedsSearch page b)"
  unfolding checkIfNeedsSearch_def by (intro quiet_rules) simp_all

lemma quiet_performSearch: "snapsBy (\<lambda>_. 0) (performSearch page u)"
  unfolding performSearch_def by (intro quiet_rules) simp_all

lemma quiet_findAndClickListing: "snapsBy (\<lambda>_. 0) (findAndClickListing page u)"
  unfolding findAndClickListing_def by (intro quiet_rules) simp_all

lemma quiet_handleCheckboxesAndTerms: "snapsBy (\<lambda>_. 0) (handleCheckboxesAndTerms page)"
  unfolding handleCheckboxesAndTerms_def by (intro quiet_rules) simp_all

lemma quiet_fillRemovalForm: "snapsBy (\<lambda>_. 0) (fillRemovalForm page u)"
  unfolding fillRemovalForm_def by (intro quiet_rules quiet_handleCheckboxesAndTerms) simp_all

lemma quiet_applySpecialInstructions: "snapsBy (\<lambda>_. 0) (applySpecialInstructions page b)"
  unfolding applySpecialInstructions_def Let_def by (intro quiet_rules) simp_all

lemma quiet_clickSubmit: "snapsBy (\<lambda>_. 0) (clickSubmit page)"
  unfolding clickSubmit_def by (intro quiet_rules) simp_all

lemma quiet_submitRemovalForm: "snapsBy (\<lambda>_. 0) (submitRemovalForm page)"
  unfolding submitRemovalForm_def by (intro quiet_rules quiet_clickSubmit) simp_all

lemma quiet_verifySubmission: "snapsBy (\<lambda>_. 0) (verifySubmission page)"
  unfolding verifySubmission_def by (intro quiet_rules) simp_all

lemma snapsBy_conclude:
  "snapsBy (\<lambda>r. if screenshot r = None then 0 else 1) (conclude host page b result verification)"
  unfolding snapsBy_def
proof
  fix w
  obtain r where r: "fst (conclude host page b result verification w) = Inr r" "screenshot r \<noteq> None"
    using conclude_verdict [of host page b result verification w] by blast
  show "snapshotsTaken (calls (snd (conclude host page b result verification w)))
          = snapshotsTaken (calls w)
            + (case fst (conclude host page b result verification w) of
                 Inl e \<Rightarrow> 0 | Inr x \<Rightarrow> if screenshot x = None then 0 else 1)"
    using r by (simp add: conclude_snapshot_once)
qed

lemma snapsBy_attempt:
  assumes "screenshot result = None"
  shows "snapsBy (\<lambda>r. if screenshot r = None then 0 else 1) (attempt host page b u result)"
  unfolding attempt_def
  by (intro quiet_rules quiet_checkIfNeedsSearch quiet_performSearch quiet_findAndClickListing
      quiet_applySpecialInstructions quiet_fillRemovalForm quiet_submitRemovalForm
      quiet_verifySubmission snapsBy_conclude) (simp_all add: assms)

text \<open>
  On every path but one the snapshot is attempted exactly once and the result carries an
  evidence reference; the result without one is the early return, which attempts none.
\<close>

lemma removeFromBroker_snapshots:
  assumes "removeFromBroker host engine b u w = (Inr r, w')"
  shows "snapshotsTaken (calls w') = snapshotsTaken (calls w) + (if screenshot r = None then 0 else 1)"
proof (cases engine)
  case None
  then show ?thesis using assms by (simp add: removeFromBroker_def)
next
  case (Some page)
  show ?thesis
  proof (cases "ensureScreenshotsDir (fs w)")
    case (Inl e)
    then show ?thesis using assms Some by (simp add: removeFromBroker_def)
  next
    case (Inr fs1)
    define result where "result = \<lparr>broker = b, success = False, error = None,
        timestamp = clock host (remote (w\<lparr>fs := fs1\<rparr>)), details = None,
        screenshot = None, aiAnalysis = None\<rparr>"
    obtain x w2 where a: "attempt host page b u result (w\<lparr>fs := fs1\<rparr>) = (x, w2)"
      by (cases "attempt host page b u result (w\<lparr>fs := fs1\<rparr>)")
    have sb: "snapsBy (\<lambda>r. if screenshot r = None then 0 else 1) (attempt host page b u result)"
      by (rule snapsBy_attempt) (simp add: result_def)
    have s2: "snapshotsTaken (calls w2) = snapshotsTaken (calls w)
                + (case x of Inl e \<Rightarrow> 0 | Inr y \<Rightarrow> if screenshot y = None then 0 else 1)"
      using sb a by (auto simp: snapsBy_def dest: spec [of _ "w\<lparr>fs := fs1\<rparr>"])
    show ?thesis
    proof (cases x)
      case (Inl e)
      have run: "removeFromBroker host engine b u w = onError page b result e w2"
        using Some Inr a Inl by (simp add: removeFromBroker_def Let_def result_def)
      obtain r' where r': "fst (onError page b result e w2) = Inr r'" "screenshot r' \<noteq> None"
        using onError_verdict [of page b result e w2] by blast
      have "r = r'" "w' = snd (onError page b result e w2)"
        using assms run r' by simp_all
      then show ?thesis
        using r' s2 Inl onError_snapshot_once [of page b result e w2] by simp
    next
      case (Inr y)
      have "removeFromBroker host engine b u w = (Inr y, w2)"
        using Some \<open>ensureScreenshotsDir (fs w) = Inr fs1\<close> a Inr
        by (simp add: removeFromBroker_def Let_def result_def)
      then show ?thesis using assms s2 Inr by simp
    qed
  qed
qed

lemma removeFromBroker_without_evidence:
  assumes "removeFromBroker host engine b u w = (Inr r, w')" and "screenshot r = None"
  shows "error r = Some ''Could not find user listing'' \<and> success r = False"
proof (cases engine)
  case None
  then show ?thesis using assms by (simp add: removeFromBroker_def)
next
  case (Some page)
  show ?thesis
  proof (cases "ensureScreenshotsDir (fs w)")
    case (Inl e)
    then show ?thesis using assms Some by (simp add: removeFromBroker_def)
  next
    case (Inr fs1)
    define result where "result = \<lparr>broker = b, success = False, error = None,
        timestamp = clock host (remote (w\<lparr>fs := fs1\<rparr>)), details = None,
        screenshot = None, aiAnalysis = None\<rparr>"
    obtain x w2 where a: "attempt host page b u result (w\<lparr>fs := fs1\<rparr>) = (x, w2)"
      by (cases "attempt host page b u result (w\<lparr>fs := fs1\<rparr>)")
    have ya: "case x of Inl e \<Rightarrow> True
              | Inr y \<Rightarrow> screenshot y \<noteq> None
                         \<or> y = result\<lparr>error := Some ''Could not find user listing''\<rparr>"
    proof -
      have "case fst (attempt host page b u result (w\<lparr>fs := fs1\<rparr>)) of Inl e \<Rightarrow> True
            | Inr y \<Rightarrow> screenshot y \<noteq> None
                       \<or> y = result\<lparr>error := Some ''Could not find user listing''\<rparr>"
        using yields_attempt [of result host page b u] unfolding yields_def by (rule spec)
      then show ?thesis using a by simp
    qed
    show ?thesis
    proof (cases x)
      case (Inl e)
      have run: "removeFromBroker host engine b u w = onError page b result e w2"
        using Some Inr a Inl by (simp add: removeFromBroker_def Let_def result_def)
      obtain r' where r': "fst (onError page b result e w2) = Inr r'" "screenshot r' \<noteq> None"
        using onError_verdict [of page b result e w2] by blast
      have "r = r'" using assms(1) run r' by simp
      then show ?thesis using r' assms(2) by simp
    next
      case (Inr y)
      have "removeFromBroker host engine b u w = (Inr y, w2)"
        using Some \<open>ensureScreenshotsDir (fs w) = Inr fs1\<close> a Inr
        by (simp add: removeFromBroker_def Let_def result_def)
      then have "r = y" using assms(1) by simp
      then show ?thesis using ya Inr assms(2) by (auto simp: result_def)
    qed
  qed
qed

text \<open>
  Claim C3 at a failing input. The claim: every attempt that ends in a verdict attempts
  the evidence snapshot exactly once before it returns. Spokeo is on the search-first
  list; on the sample page neither listing probe finds and clicks a listing, and the
  attempt returns its Failure verdict through the early \<open>return\<close>: no snapshot is
  attempted, and the result carries no evidence reference.
\<close>

theorem C3_early_return_without_snapshot:
  "fst (removeFromBroker sample_host (Some sample_page) sample_broker sample_user sample_world)
     = Inr \<lparr>broker = sample_broker, success = False, error = Some ''Could not find user listing'',
            timestamp = 1700000000000, details = None, screenshot = None, aiAnalysis = None\<rparr>
   \<and> snapshotsTaken (calls (snd (removeFromBroker sample_host (Some sample_page) sample_broker
        sample_user sample_world))) = 0"
  by code_simp

section \<open>The session file\<close>

text \<open>An attempt that returns is appended and, when the write succeeds, saved.\<close>

lemma processBroker_saved:
  assumes "removeFromBroker host engine b u w = (Inr result, w1)"
    and "writeFileSync (fs w1) ''removal-session.json''
           (stringifySession host (session\<lparr>results := results session @ [result]\<rparr>)) = Inr fs'"
  shows "processBroker host engine u (session, w) b
           = (session\<lparr>results := results session @ [result]\<rparr>, w1\<lparr>fs := fs'\<rparr>)
         \<and> files fs' ''removal-session.json''
           = Some (stringifySession host (session\<lparr>results := results session @ [result]\<rparr>))"
  using assms by (auto simp: processBroker_def Let_def writeFileSync_def split: if_splits option.splits)

text \<open>An attempt that throws is appended and not saved: the file system is untouched.\<close>

lemma processBroker_thrown:
  assumes "removeFromBroker host engine b u w = (Inl e, w1)"
  shows "processBroker host engine u (session, w) b
           = (session\<lparr>results := results session @ [failureEntry host b e w1]\<rparr>, w1)"
  using assms by (simp add: processBroker_def)

text \<open>When the write of the session throws, the broker gets a second entry.\<close>

lemma processBroker_write_fails:
  assumes "removeFromBroker host engine b u w = (Inr result, w1)"
    and "writeFileSync (fs w1) ''removal-session.json''
           (stringifySession host (session\<lparr>results := results session @ [result]\<rparr>)) = Inl e"
  shows "processBroker host engine u (session, w) b
           = (session\<lparr>results := results session @ [result, failureEntry host b e w1]\<rparr>, w1)"
  using assms by (simp add: processBroker_def Let_def)

lemma removeFromBroker_throws_before_try:
  "ensureScreenshotsDir (fs w) = Inl e \<Longrightarrow> removeFromBroker host (Some page) b u w = (Inl e, w)"
  by (simp add: removeFromBroker_def)

text \<open>
  The run in which nothing throws: every result belongs to the broker it was made for,
  and after each broker the session file holds the session with exactly the results so
  far, in processing order.
\<close>

lemma conclude_broker:
  "\<exists>r. fst (conclude host page b result verification w) = Inr r \<and> broker r = broker result"
  by (simp add: conclude_def Let_def split_beta)

lemma yields_conclude_broker:
  "yields (\<lambda>r. broker r = broker result) (conclude host page b result verification)"
  unfolding yields_def
proof
  fix w
  show "case fst (conclude host page b result verification w) of
          Inl e \<Rightarrow> True | Inr x \<Rightarrow> broker x = broker result"
    using conclude_broker [of host page b result verification w] by auto
qed

lemma yields_attempt_broker:
  "yields (\<lambda>r. broker r = broker result) (attempt host page b u result)"
  unfolding attempt_def
  by (intro yields_andThen yields_if yields_ret yields_conclude_broker) simp_all

lemma removeFromBroker_broker:
  assumes "removeFromBroker host engine b u w = (Inr r, w')"
  shows "broker r = b"
proof (cases engine)
  case None
  then show ?thesis using assms by (simp add: removeFromBroker_def)
next
  case (Some page)
  show ?thesis
  proof (cases "ensureScreenshotsDir (fs w)")
    case (Inl e)
    then show ?thesis using assms Some by (simp add: removeFromBroker_def)
  next
    case (Inr fs1)
    define result where "result = \<lparr>broker = b, success = False, error = None,
        timestamp = clock host (remote (w\<lparr>fs := fs1\<rparr>)), details = None,
        screenshot = None, aiAnalysis = None\<rparr>"
    obtain x w2 where a: "attempt host page b u result (w\<lparr>fs := fs1\<rparr>) = (x, w2)"
      by (cases "attempt host page b u result (w\<lparr>fs := fs1\<rparr>)")
    have ya: "case x of Inl e \<Rightarrow> True | Inr y \<Rightarrow> broker y = broker result"
    proof -
      have "case fst (attempt host page b u result (w\<lparr>fs := fs1\<rparr>)) of Inl e \<Rightarrow> True
            | Inr y \<Rightarrow> broker y = broker result"
        using yields_attempt_broker [of result host page b u] unfolding yields_def by (rule spec)
      then show ?thesis using a by simp
    qed
    show ?thesis
    proof (cases x)
      case (Inl e)
      have "removeFromBroker host engine b u w = onError page b result e w2"
        using Some Inr a Inl by (simp add: removeFromBroker_def Let_def result_def)
      then show ?thesis using assms by (auto simp: onError_def split_beta result_def)
    next
      case (Inr y)
      have "removeFromBroker host engine b u w = (Inr y, w2)"
        using Some \<open>ensureScreenshotsDir (fs w) = Inr fs1\<close> a Inr
        by (simp add: removeFromBroker_def Let_def result_def)
      then have "r = y" using assms by simp
      then show ?thesis using ya Inr by (simp add: result_def)
    qed
  qed
qed

lemma writeFileSync_files: "writeFileSync f p data = Inr f' \<Longrightarrow> files f' p = Some data"
  by (auto simp: writeFileSync_def split: if_splits option.splits)

lemma processBroker_smooth_step:
  assumes "smooth host engine u (b # bs) sw"
  shows "smooth host engine u bs (processBroker host engine u sw b)
         \<and> map broker (results (fst (processBroker host engine u sw b)))
             = map broker (results (fst sw)) @ [b]
         \<and> files (fs (snd (processBroker host engine u sw b))) ''removal-session.json''
             = Some (stringifySession host (fst (processBroker host engine u sw b)))"
proof -
  obtain session w where sw: "sw = (session, w)" by (cases sw)
  obtain x w1 where r: "removeFromBroker host engine b u w = (x, w1)"
    by (cases "removeFromBroker host engine b u w")
  from assms sw r obtain result where x: "x = Inr result"
    by (cases x) auto
  from assms sw r x obtain fs' where
    wr: "writeFileSync (fs w1) ''removal-session.json''
           (stringifySession host (session\<lparr>results := results session @ [result]\<rparr>)) = Inr fs'"
    by (cases "writeFileSync (fs w1) ''removal-session.json''
           (stringifySession host (session\<lparr>results := results session @ [result]\<rparr>))") auto
  have step: "processBroker host engine u sw b
                = (session\<lparr>results := results session @ [result]\<rparr>, w1\<lparr>fs := fs'\<rparr>)"
    using sw r x wr by (simp add: processBroker_def Let_def)
  have b: "broker result = b"
    using removeFromBroker_broker r x by blast
  have sm: "smooth host engine u bs (processBroker host engine u sw b)"
    using assms sw r x wr by simp
  show ?thesis
    using sm step b writeFileSync_files [OF wr] sw by simp
qed

lemma processBrokers_smooth:
  assumes "smooth host engine u bs sw"
  shows "map broker (results (fst (processBrokers host engine u bs sw)))
           = map broker (results (fst sw)) @ bs
         \<and> (bs \<noteq> [] \<or> files (fs (snd sw)) ''removal-session.json''
                          = Some (stringifySession host (fst sw))
            \<longrightarrow> files (fs (snd (processBrokers host engine u bs sw))) ''removal-session.json''
              = Some (stringifySession host (fst (processBrokers host engine u bs sw))))"
  using assms
proof (induction bs arbitrary: sw)
  case Nil
  then show ?case by (simp add: processBrokers_def)
next
  case (Cons b bs)
  have st: "smooth host engine u bs (processBroker host engine u sw b)"
    "map broker (results (fst (processBroker host engine u sw b)))
       = map broker (results (fst sw)) @ [b]"
    "files (fs (snd (processBroker host engine u sw b))) ''removal-session.json''
       = Some (stringifySession host (fst (processBroker host engine u sw b)))"
    using processBroker_smooth_step [OF Cons.prems] by simp_all
  have unf: "processBrokers host engine u (b # bs) sw
               = processBrokers host engine u bs (processBroker host engine u sw b)"
    by (simp add: processBrokers_def)
  show ?case
    using Cons.IH [OF st(1)] st(2) st(3) unfolding unf by simp
qed

text \<open>After the k-th broker of a smooth run: k results, in order, and saved.\<close>

lemma smooth_take: "smooth host engine u bs sw \<Longrightarrow> smooth host engine u (take k bs) sw"
proof (induction bs arbitrary: sw k)
  case Nil
  then show ?case by simp
next
  case (Cons b bs)
  show ?case
  proof (cases k)
    case 0
    then show ?thesis by simp
  next
    case (Suc j)
    have "smooth host engine u (take j bs) (processBroker host engine u sw b)"
      using Cons.IH processBroker_smooth_step [OF Cons.prems] by blast
    then show ?thesis
      using Cons.prems Suc by (auto split: prod.splits sum.splits)
  qed
qed

lemma smooth_run_saved_after_each_broker:
  assumes "smooth host engine u bs (session, w)" and "results session = []"
    and "0 < k" and "k \<le> length bs"
  shows "map broker (results (fst (processBrokers host engine u (take k bs) (session, w))))
           = take k bs
         \<and> length (results (fst (processBrokers host engine u (take k bs) (session, w)))) = k
         \<and> files (fs (snd (processBrokers host engine u (take k bs) (session, w))))
              ''removal-session.json''
             = Some (stringifySession host
                      (fst (processBrokers host engine u (take k bs) (session, w))))"
proof -
  have sm: "smooth host engine u (take k bs) (session, w)"
    using assms(1) by (rule smooth_take)
  have ne: "take k bs \<noteq> []" using assms(3,4) by auto
  have m: "map broker (results (fst (processBrokers host engine u (take k bs) (session, w))))
             = take k bs"
    using processBrokers_smooth [OF sm] assms(2) by simp
  have "length (map broker (results (fst (processBrokers host engine u (take k bs) (session, w)))))
          = length (take k bs)"
    using m by simp
  then have l: "length (results (fst (processBrokers host engine u (take k bs) (session, w)))) = k"
    using assms(4) by simp
  show ?thesis
    using m l processBrokers_smooth [OF sm] ne by simp
qed

text \<open>
  Claim C8 at a failing input. The claim: after the k-th broker the session file holds
  exactly k results. In a working directory where \<open>screenshots\<close> cannot be created,
  \<open>removeFromBroker\<close> throws before its \<open>try\<close>; the loop's \<open>catch\<close> appends a
  failure entry and does not write: after the first broker the session has one result
  and \<open>removal-session.json\<close> does not exist.
\<close>

theorem C8_thrown_attempt_is_not_saved:
  "length (results (fst (processBrokers sample_host (Some sample_page) sample_user [sample_broker]
       (sample_session, locked_world)))) = 1
   \<and> files (fs (snd (processBrokers sample_host (Some sample_page) sample_user [sample_broker]
       (sample_session, locked_world)))) ''removal-session.json'' = None"
  by code_simp

section \<open>The user profile\<close>

lemma optionalStringMember_ok:
  "(optionalStringMember kvs k \<noteq> None)
     = (map_of kvs k = None \<or> (\<exists>s. map_of kvs k = Some (JStr s)))"
  by (simp add: optionalStringMember_def split: option.splits json.splits)

text \<open>The schema accepts by shape and by the e-mail check alone.\<close>

lemma UserSchema_accepts_iff:
  "(UserSchema_parse isEmail j \<noteq> None) =
     (case j of
        JObj kvs \<Rightarrow>
          list_all (\<lambda>k. stringMember kvs k \<noteq> None) requiredKeys
          \<and> optionalStringMember kvs ''additionalNotes'' \<noteq> None
          \<and> list_all isEmail (case stringMember kvs ''email'' of None \<Rightarrow> [] | Some e \<Rightarrow> [e])
      | _ \<Rightarrow> False)"
  by (cases j) (auto simp: UserSchema_parse_def requiredKeys_def Option.bind_eq_None_conv
      split: Option.bind_splits option.splits)

lemma promptsAccept_iff:
  "promptsAccept parseDate now a =
     (trim (firstName a) \<noteq> [] \<and> trim (lastName a) \<noteq> [] \<and> emailRegex (email a)
      \<and> trim (address a) \<noteq> [] \<and> trim (city a) \<noteq> []
      \<and> stateRegex (toUpperCase (state a)) \<and> zipRegex (zip_code a)
      \<and> phoneRegex (stripPhone (phone a)) \<and> dateRegex (dateOfBirth a)
      \<and> \<not> dateAfter (parseDate (dateOfBirth a)) (Some now)
      \<and> \<not> dateAfter (parseDate ''1900-01-01'') (parseDate (dateOfBirth a)))"
  by (auto simp: promptsAccept_def required_def validateEmail_def validateState_def validateZip_def
      validatePhone_def validateDateOfBirth_def Let_def)

lemma dob_future_rejected:
  "parseDate d = Some t \<Longrightarrow> now < t \<Longrightarrow> validateDateOfBirth parseDate now d \<noteq> Inr ()"
  by (simp add: validateDateOfBirth_def dateAfter_def Let_def)

lemma dob_before_floor_rejected:
  "parseDate d = Some t \<Longrightarrow> parseDate ''1900-01-01'' = Some fl \<Longrightarrow> t < fl \<Longrightarrow>
   validateDateOfBirth parseDate now d \<noteq> Inr ()"
  by (simp add: validateDateOfBirth_def dateAfter_def Let_def)

lemma dob_rejected:
  "parseDate d = Some t \<and> (now < t \<or> (\<exists>fl. parseDate ''1900-01-01'' = Some fl \<and> t < fl))
     \<longrightarrow> validateDateOfBirth parseDate now d \<noteq> Inr ()
         \<and> \<not> promptsAccept parseDate now (a\<lparr>dateOfBirth := d\<rparr>)"
  using dob_future_rejected [of parseDate d t now]
    dob_before_floor_rejected [of parseDate d t _ now]
  by (auto simp: promptsAccept_def)

text \<open>Answers the prompts let through always have the shape; only the e-mail check is left.\<close>

lemma collectUserInfo_accepts_iff: "(collectUserInfo isEmail a \<noteq> None) = isEmail (email a)"
  by (simp add: collectUserInfo_def UserSchema_parse_def answersObject_def stringMember_def
      optionalStringMember_def)

text \<open>
  Claim C7, as the specification states it: schema validation accepts a profile if and
  only if every required field is non-empty and e-mail, date of birth, ZIP, phone and
  state match their grammars. Take the e-mail check of the schema to be the e-mail
  grammar of the prompts, the reading most favourable to the claim. The stored profile
  \<open>blank_profile\<close> has an empty first name, state, ZIP, phone and date of birth, none of
  which matches its grammar, and the schema accepts it.
\<close>

theorem C7_schema_accepts_blank_fields:
  "UserSchema_parse emailRegex blank_profile =
     Some \<lparr>firstName = [], lastName = ''Doe'', email = ''jane@example.com'',
           address = ''1 Main St'', city = ''Springfield'', state = [], zip_code = [],
           phone = [], dateOfBirth = [], additionalNotes = None\<rparr>
   \<and> \<not> zipRegex [] \<and> \<not> stateRegex (toUpperCase []) \<and> \<not> phoneRegex (stripPhone [])
   \<and> \<not> dateRegex []"
  by code_simp

text \<open>
  Claim C7, amended. Schema validation accepts a candidate if and only if it is an
  object whose nine required members are strings, whose \<open>additionalNotes\<close> is absent
  or a string, and whose e-mail passes the schema's e-mail check; it asks for no
  non-empty field and applies no date, ZIP, phone or state grammar. Those are the
  validators of the prompts: the prompts let a set of answers through if and only if
  first name, last name, address and city are not blank and e-mail, state, ZIP, phone
  and date of birth match their patterns, the date of birth being neither after today
  nor before 1900-01-01; so a date of birth that parses to a day in the future or before
  1900-01-01 is rejected there.
\<close>

theorem C7_schema_shape_prompts_grammar:
  "((UserSchema_parse isEmail j \<noteq> None) =
     (case j of
        JObj kvs \<Rightarrow>
          list_all (\<lambda>k. stringMember kvs k \<noteq> None) requiredKeys
          \<and> optionalStringMember kvs ''additionalNotes'' \<noteq> None
          \<and> list_all isEmail (case stringMember kvs ''email'' of None \<Rightarrow> [] | Some e \<Rightarrow> [e])
      | _ \<Rightarrow> False))
   \<and> (promptsAccept parseDate now a =
     (trim (firstName a) \<noteq> [] \<and> trim (lastName a) \<noteq> [] \<and> emailRegex (email a)
      \<and> trim (address a) \<noteq> [] \<and> trim (city a) \<noteq> []
      \<and> stateRegex (toUpperCase (state a)) \<and> zipRegex (zip_code a)
      \<and> phoneRegex (stripPhone (phone a)) \<and> dateRegex (dateOfBirth a)
      \<and> \<not> dateAfter (parseDate (dateOfBirth a)) (Some now)
      \<and> \<not> dateAfter (parseDate ''1900-01-01'') (parseDate (dateOfBirth a))))
   \<and> (parseDate d = Some t \<and> (now < t \<or> (\<exists>fl. parseDate ''1900-01-01'' = Some fl \<and> t < fl))
     \<longrightarrow> validateDateOfBirth parseDate now d \<noteq> Inr ()
         \<and> \<not> promptsAccept parseDate now (a\<lparr>dateOfBirth := d\<rparr>))"
  by (intro conjI UserSchema_accepts_iff promptsAccept_iff dob_rejected)

text \<open>
  The sample answers pass the prompts and the schema; with a date of birth in the year
  2999 they are rejected.
\<close>

theorem C7_schema_shape_prompts_grammar_witness:
  "promptsAccept sample_parseDate 1700000000000 sample_user
   \<and> UserSchema_parse emailRegex (answersObject sample_user) \<noteq> None
   \<and> sample_parseDate ''2999-01-01'' = Some 32472144000000
   \<and> validateDateOfBirth sample_parseDate 1700000000000 ''2999-01-01'' \<noteq> Inr ()
   \<and> \<not> promptsAccept sample_parseDate 1700000000000 (sample_user\<lparr>dateOfBirth := ''2999-01-01''\<rparr>)"
proof -
  have p: "promptsAccept sample_parseDate 1700000000000 sample_user"
    by code_simp
  have s: "UserSchema_parse emailRegex (answersObject sample_user) \<noteq> None"
    by code_simp
  have d: "sample_parseDate ''2999-01-01'' = Some 32472144000000"
    by (simp add: sample_parseDate_def)
  have h: "sample_parseDate ''2999-01-01'' = Some 32472144000000
           \<and> ((1700000000000::int) < 32472144000000
              \<or> (\<exists>fl. sample_parseDate ''1900-01-01'' = Some fl \<and> 32472144000000 < fl))"
    using d by simp
  have r: "validateDateOfBirth sample_parseDate 1700000000000 ''2999-01-01'' \<noteq> Inr ()
           \<and> \<not> promptsAccept sample_parseDate 1700000000000 (sample_user\<lparr>dateOfBirth := ''2999-01-01''\<rparr>)"
    using C7_schema_shape_prompts_grammar
      [of _ _ sample_parseDate 1700000000000 sample_user "''2999-01-01''" 32472144000000] h
    by blast
  show ?thesis using p s d r by blast
qed

end
